theory Spec2Isabelle
  imports Complex_Main
begin

section \<open>Data model\<close>

text \<open>
  Joint positions are the three-element arrays \<^verbatim>\<open>np.array([x, y, z])\<close> returned by
  \<^verbatim>\<open>JointTracker.get_joint_position\<close>; floating-point numbers are idealised as reals.
  A metrics snapshot is the Python dictionary from metric name to value.
  Exceptions are values of type \<open>error\<close>: a method that may raise returns
  \<open>error + 'a\<close>, and a method that mutates the object before it may raise returns the
  exception (if any) together with the state the object is left in.
\<close>

type_synonym vec3 = "real \<times> real \<times> real"

type_synonym metrics = "string \<rightharpoonup> real"

type_synonym time = real

datatype error = KeyError | TypeError | OSError | ValueError | IndexError

text \<open>
  One line appended to the log file by \<^verbatim>\<open>_log_rep\<close>: the arguments handed to
  \<^verbatim>\<open>_format_log_entry\<close>.
\<close>

record log_entry =
  entry_timestamp :: time
  entry_rep_num :: int
  entry_metrics :: metrics
  entry_duration :: real
  entry_quality :: string

text \<open>
  The hooks \<^verbatim>\<open>on_rep_started\<close> and \<^verbatim>\<open>on_rep_completed\<close> are recorded as
  notifications, with the arguments they are called with.
\<close>

datatype notification =
  RepStarted metrics
| RepCompleted int metrics real string

text \<open>
  The abstract and overridable methods of \<^verbatim>\<open>BaseExerciseDetector\<close>, together with the
  constructor argument \<^verbatim>\<open>cooldown_frames\<close>. \<open>'l\<close> is the type of the landmarks of
  a frame, \<open>'j\<close> the type of a joint position. \<^verbatim>\<open>update_best_metrics\<close> mutates the
  dictionary \<^verbatim>\<open>best\<close> in place: it is given the current and the best metrics and returns
  the exception raised (if any) and the best metrics as they are left.
\<close>

record ('l, 'j) profile =
  cooldown_frames :: int
  get_required_joints :: "'l \<Rightarrow> (string \<times> 'j option) list"
  calculate_metrics :: "(string \<times> 'j option) list \<Rightarrow> error + metrics"
  is_in_rep_position :: "metrics \<Rightarrow> error + bool"
  is_at_starting_position :: "metrics \<Rightarrow> error + bool"
  assess_rep_quality :: "metrics \<Rightarrow> error + string"
  update_best_metrics :: "metrics \<Rightarrow> metrics \<Rightarrow> error option \<times> metrics"

text \<open>
  The attributes of a detector object. \<open>rep_log\<close> is the list of entries appended to the
  log file so far, \<open>notified\<close> the hook calls made so far.
\<close>

record detector =
  rep_count :: int
  in_rep_position :: bool
  returned_to_start :: bool
  rep_start_time :: "time option"
  frames_since_last_rep :: int
  current_metrics :: metrics
  best_metrics :: metrics
  rep_log :: "log_entry list"
  notified :: "notification list"

text \<open>
  What one call of \<^verbatim>\<open>on_joints_detected\<close> receives from outside: the landmarks of the
  frame, the reading of the clock (\<^verbatim>\<open>datetime.datetime.now()\<close>) during the call, and
  whether opening the log file for appending succeeds.
\<close>

record 'l frame =
  landmarks :: 'l
  now :: time
  sink_ok :: bool

section \<open>The repetition state machine\<close>

text \<open>\<^verbatim>\<open>BaseExerciseDetector.__init__\<close> (the header of the log file is not modelled).\<close>

definition init_detector :: "('l, 'j) profile \<Rightarrow> detector" where
  "init_detector p =
     \<lparr>rep_count = 0,
      in_rep_position = False,
      returned_to_start = True,
      rep_start_time = None,
      frames_since_last_rep = cooldown_frames p,
      current_metrics = Map.empty,
      best_metrics = Map.empty,
      rep_log = [],
      notified = []\<rparr>"

text \<open>\<^verbatim>\<open>utils.all_joints_detected\<close>\<close>

definition all_joints_detected :: "'j option list \<Rightarrow> bool" where
  "all_joints_detected joints = list_all (\<lambda>joint. joint \<noteq> None) joints"

text \<open>
  \<^verbatim>\<open>BaseExerciseDetector._log_rep\<close>; what the methods print to the console is
  not modelled.
\<close>

definition log_rep ::
  "'l frame \<Rightarrow> detector \<Rightarrow> metrics \<Rightarrow> real \<Rightarrow> string \<Rightarrow> error option \<times> detector" where
  "log_rep f s m duration quality =
     (let entry = \<lparr>entry_timestamp = now f, entry_rep_num = rep_count s, entry_metrics = m,
                    entry_duration = duration, entry_quality = quality\<rparr>
      in if sink_ok f then (None, s\<lparr>rep_log := rep_log s @ [entry]\<rparr>)
         else (Some OSError, s))"

text \<open>
  \<^verbatim>\<open>BaseExerciseDetector._complete_rep\<close>. Subtracting \<^verbatim>\<open>rep_start_time\<close> when it is
  still \<^verbatim>\<open>None\<close> raises \<^verbatim>\<open>TypeError\<close>.
\<close>

definition complete_rep ::
  "('l, 'j) profile \<Rightarrow> 'l frame \<Rightarrow> detector \<Rightarrow> error option \<times> detector" where
  "complete_rep p f s =
     (let s1 = s\<lparr>rep_count := rep_count s + 1, frames_since_last_rep := 0\<rparr>
      in case rep_start_time s1 of
           None \<Rightarrow> (Some TypeError, s1)
         | Some t0 \<Rightarrow>
             (let duration = now f - t0
              in case assess_rep_quality p (best_metrics s1) of
                   Inl e \<Rightarrow> (Some e, s1)
                 | Inr quality \<Rightarrow>
                     (case log_rep f s1 (best_metrics s1) duration quality of
                        (Some e, s2) \<Rightarrow> (Some e, s2)
                      | (None, s2) \<Rightarrow>
                          (None, s2\<lparr>notified := notified s2 @
                             [RepCompleted (rep_count s2) (best_metrics s2) duration quality]\<rparr>))))"

text \<open>
  \<^verbatim>\<open>BaseExerciseDetector.on_joints_detected\<close>: the exception that leaves the call (if
  any) and the state of the object after the call.
\<close>

definition on_joints_detected ::
  "('l, 'j) profile \<Rightarrow> 'l frame \<Rightarrow> detector \<Rightarrow> error option \<times> detector" where
  "on_joints_detected p f s0 =
     (let s1 = s0\<lparr>frames_since_last_rep := frames_since_last_rep s0 + 1\<rparr>;
          joints = get_required_joints p (landmarks f)
      in if \<not> all_joints_detected (map snd joints) then (None, s1)
         else case calculate_metrics p joints of
           Inl e \<Rightarrow> (Some e, s1)
         | Inr m \<Rightarrow>
           (let s2 = s1\<lparr>current_metrics := m\<rparr>
            in case is_in_rep_position p (current_metrics s2) of
              Inl e \<Rightarrow> (Some e, s2)
            | Inr is_in_position \<Rightarrow>
              (case is_at_starting_position p (current_metrics s2) of
                 Inl e \<Rightarrow> (Some e, s2)
               | Inr is_at_start \<Rightarrow>
                   if is_at_start \<and> in_rep_position s2 then
                     (let s3 = s2\<lparr>returned_to_start := True, in_rep_position := False\<rparr>
                      in if frames_since_last_rep s3 \<ge> cooldown_frames p
                         then complete_rep p f s3
                         else (None, s3))
                   else if is_in_position \<and> \<not> in_rep_position s2 \<and> returned_to_start s2 then
                     (None, s2\<lparr>in_rep_position := True,
                               returned_to_start := False,
                               rep_start_time := Some (now f),
                               best_metrics := current_metrics s2,
                               notified := notified s2 @ [RepStarted (current_metrics s2)]\<rparr>)
                   else if in_rep_position s2 then
                     (case update_best_metrics p (current_metrics s2) (best_metrics s2) of
                        (e, best) \<Rightarrow> (e, s2\<lparr>best_metrics := best\<rparr>))
                   else (None, s2))))"

text \<open>
  Which of the three instruction methods \<^verbatim>\<open>get_instruction\<close> calls
  (\<^verbatim>\<open>get_in_position_instruction\<close>, \<^verbatim>\<open>get_return_instruction\<close>,
  \<^verbatim>\<open>get_ready_instruction\<close>).
\<close>

datatype instruction = InPositionInstruction | ReturnInstruction | ReadyInstruction

definition get_instruction :: "detector \<Rightarrow> instruction" where
  "get_instruction s =
     (if in_rep_position s then InPositionInstruction
      else if \<not> returned_to_start s then ReturnInstruction
      else ReadyInstruction)"

text \<open>
  A frame sequence is processed one call after the other; an exception leaves the loop
  of the tracker, so the run stops at the first call that raises.
\<close>

fun run :: "('l, 'j) profile \<Rightarrow> 'l frame list \<Rightarrow> detector \<Rightarrow> error option \<times> detector" where
  "run p [] s = (None, s)"
| "run p (f # fs) s =
     (case on_joints_detected p f s of
        (Some e, s') \<Rightarrow> (Some e, s')
      | (None, s') \<Rightarrow> run p fs s')"

text \<open>
  What the state machine sees of a frame: nothing when a required joint is missing or a
  profile method raises, otherwise the values of the two predicates.
\<close>

datatype observation = Skipped | Raised error | Observed bool bool

definition observe :: "('l, 'j) profile \<Rightarrow> 'l frame \<Rightarrow> observation" where
  "observe p f =
     (let joints = get_required_joints p (landmarks f)
      in if \<not> all_joints_detected (map snd joints) then Skipped
         else case calculate_metrics p joints of
           Inl e \<Rightarrow> Raised e
         | Inr m \<Rightarrow>
           (case is_in_rep_position p m of
              Inl e \<Rightarrow> Raised e
            | Inr is_in_position \<Rightarrow>
              (case is_at_starting_position p m of
                 Inl e \<Rightarrow> Raised e
               | Inr is_at_start \<Rightarrow> Observed is_in_position is_at_start)))"

definition in_position_frame :: "('l, 'j) profile \<Rightarrow> 'l frame \<Rightarrow> bool" where
  "in_position_frame p f =
     (case observe p f of Observed is_in_position is_at_start \<Rightarrow> is_in_position | _ \<Rightarrow> False)"

definition at_start_frame :: "('l, 'j) profile \<Rightarrow> 'l frame \<Rightarrow> bool" where
  "at_start_frame p f =
     (case observe p f of Observed is_in_position is_at_start \<Rightarrow> is_at_start | _ \<Rightarrow> False)"

section \<open>The squat detector\<close>

text \<open>
  The overrides of \<^verbatim>\<open>SquatDetector\<close> (\<^verbatim>\<open>squat.py\<close>) with its thresholds
  \<^verbatim>\<open>knee_angle_threshold = 100\<close>, \<^verbatim>\<open>depth_threshold = 0.15\<close>,
  \<^verbatim>\<open>standing_angle = 160\<close> and \<^verbatim>\<open>standing_depth = 0.25\<close>. Reading a key
  that the dictionary lacks raises \<^verbatim>\<open>KeyError\<close>; \<^verbatim>\<open>and\<close> evaluates its
  second operand only when the first is true.
\<close>

definition squat_is_in_rep_position :: "metrics \<Rightarrow> error + bool" where
  "squat_is_in_rep_position m =
     (case m ''knee_angle'' of
        None \<Rightarrow> Inl KeyError
      | Some knee_angle \<Rightarrow>
          if knee_angle < 100 then
            (case m ''squat_depth'' of
               None \<Rightarrow> Inl KeyError
             | Some squat_depth \<Rightarrow> Inr (squat_depth < 0.15))
          else Inr False)"

definition squat_is_at_starting_position :: "metrics \<Rightarrow> error + bool" where
  "squat_is_at_starting_position m =
     (case m ''knee_angle'' of
        None \<Rightarrow> Inl KeyError
      | Some knee_angle \<Rightarrow>
          if knee_angle > 160 then
            (case m ''squat_depth'' of
               None \<Rightarrow> Inl KeyError
             | Some squat_depth \<Rightarrow> Inr (squat_depth > 0.25))
          else Inr False)"

definition squat_assess_rep_quality :: "metrics \<Rightarrow> error + string" where
  "squat_assess_rep_quality m =
     (case m ''squat_depth'' of
        None \<Rightarrow> Inl KeyError
      | Some squat_depth \<Rightarrow>
          if squat_depth < 0.10 then Inr ''Excellent - ATG (Ass to Grass)''
          else if squat_depth < 0.15 then Inr ''Good - Full depth / Parallel''
          else if squat_depth < 0.20 then Inr ''Fair - Just below parallel''
          else Inr ''Shallow - Go deeper'')"

definition squat_update_best_metrics :: "metrics \<Rightarrow> metrics \<Rightarrow> error option \<times> metrics" where
  "squat_update_best_metrics current best =
     (case current ''squat_depth'' of
        None \<Rightarrow> (Some KeyError, best)
      | Some squat_depth \<Rightarrow>
          if squat_depth < (case best ''squat_depth'' of None \<Rightarrow> 1 | Some d \<Rightarrow> d) then
            (let best1 = best(''squat_depth'' \<mapsto> squat_depth)
             in case current ''knee_angle'' of
                  None \<Rightarrow> (Some KeyError, best1)
                | Some knee_angle \<Rightarrow> (None, best1(''knee_angle'' \<mapsto> knee_angle)))
          else (None, best))"

text \<open>
  The dictionary that \<^verbatim>\<open>SquatDetector.calculate_metrics\<close> returns, for a knee angle
  and a squat depth.
\<close>

definition squat_metrics :: "real \<Rightarrow> real \<Rightarrow> metrics" where
  "squat_metrics knee_angle squat_depth =
     [''knee_angle'' \<mapsto> knee_angle, ''squat_depth'' \<mapsto> squat_depth]"

text \<open>
  A squat-like profile for scenarios that give the metrics of each frame directly: the
  pose source is a stub with one required joint whose value is the pair of knee angle
  and squat depth measured in the frame (\<open>None\<close> when the pose is not detected), and
  the metrics are the dictionary built from that pair. The predicates, the quality
  grades and the merge of the best metrics are those of \<^verbatim>\<open>SquatDetector\<close>; the
  cooldown is a parameter (\<^verbatim>\<open>SquatDetector\<close> itself passes 30).
\<close>

definition squat_like_profile :: "int \<Rightarrow> ((real \<times> real) option, real \<times> real) profile" where
  "squat_like_profile cooldown =
     \<lparr>cooldown_frames = cooldown,
      get_required_joints = (\<lambda>l. [(''pose'', l)]),
      calculate_metrics =
        (\<lambda>joints. case joints of
                     [(name, Some (knee_angle, squat_depth))] \<Rightarrow>
                       Inr (squat_metrics knee_angle squat_depth)
                   | _ \<Rightarrow> Inl KeyError),
      is_in_rep_position = squat_is_in_rep_position,
      is_at_starting_position = squat_is_at_starting_position,
      assess_rep_quality = squat_assess_rep_quality,
      update_best_metrics = squat_update_best_metrics\<rparr>"

text \<open>A frame of such a scenario, taken at clock reading \<open>t\<close> with a working log file.\<close>

definition metrics_frame :: "real \<Rightarrow> real \<Rightarrow> time \<Rightarrow> (real \<times> real) option frame" where
  "metrics_frame knee_angle squat_depth t =
     \<lparr>landmarks = Some (knee_angle, squat_depth), now = t, sink_ok = True\<rparr>"

text \<open>
  The states after each frame of a sequence, in order; as \<open>run\<close>, it stops at the first
  call that raises (the state that call leaves is the last of the list).
\<close>

fun run_states :: "('l, 'j) profile \<Rightarrow> 'l frame list \<Rightarrow> detector \<Rightarrow> detector list" where
  "run_states p [] s = []"
| "run_states p (f # fs) s =
     (case on_joints_detected p f s of
        (Some e, s') \<Rightarrow> [s']
      | (None, s') \<Rightarrow> s' # run_states p fs s')"

text \<open>
  The scenario of the specification: six frames with their knee angle and squat depth,
  taken one second apart, fed to a fresh squat-like detector with a cooldown of two
  frames. \<open>squat_bottom\<close> is the detector after the first five of them.
\<close>

definition scenario_frames :: "(real \<times> real) option frame list" where
  "scenario_frames =
     [metrics_frame 170 0.30 1, metrics_frame 170 0.30 2, metrics_frame 95 0.10 3,
      metrics_frame 90 0.08 4, metrics_frame 95 0.10 5, metrics_frame 170 0.30 6]"

definition squat_bottom :: detector where
  "squat_bottom =
     snd (run (squat_like_profile 2) (take 5 scenario_frames)
            (init_detector (squat_like_profile 2)))"

text \<open>
  \<open>squat_second_bottom\<close> is a detector with the cooldown of 30 frames that
  \<^verbatim>\<open>SquatDetector\<close> passes, after the six frames of the scenario (which count one
  repetition) and a seventh frame that is in the rep position again.
\<close>

definition squat_second_bottom :: detector where
  "squat_second_bottom =
     snd (run (squat_like_profile 30) (scenario_frames @ [metrics_frame 95 0.10 7])
            (init_detector (squat_like_profile 30)))"

text \<open>
  The state of the detector after a sequence of calls when the caller goes on after an
  exception: the object keeps the state in which the raising call left it.
\<close>

fun after_calls :: "('l, 'j) profile \<Rightarrow> 'l frame list \<Rightarrow> detector \<Rightarrow> detector" where
  "after_calls p [] s = s"
| "after_calls p (f # fs) s = after_calls p fs (snd (on_joints_detected p f s))"

section \<open>The edge and threshold detectors\<close>

text \<open>
  The landmarks of a frame give the position of the joints that the pose source found;
  \<^verbatim>\<open>JointTracker.get_joint_position\<close> returns \<^verbatim>\<open>None\<close> for the others.
\<close>

type_synonym pose_landmarks = "string \<rightharpoonup> vec3"

definition get_joint_position :: "pose_landmarks \<Rightarrow> string \<Rightarrow> vec3 option" where
  "get_joint_position l joint_name = l joint_name"

text \<open>Reading the element \<open>i\<close> of a three-element array; an index beyond 2 raises.\<close>

fun component :: "vec3 \<Rightarrow> nat \<Rightarrow> error + real" where
  "component (x, y, z) i =
     (if i = 0 then Inr x else if i = 1 then Inr y else if i = 2 then Inr z
      else Inl IndexError)"

fun vec_sub :: "vec3 \<Rightarrow> vec3 \<Rightarrow> vec3" where
  "vec_sub (x1, y1, z1) (x2, y2, z2) = (x1 - x2, y1 - y2, z1 - z2)"

fun vec_dot :: "vec3 \<Rightarrow> vec3 \<Rightarrow> real" where
  "vec_dot (x1, y1, z1) (x2, y2, z2) = x1 * x2 + y1 * y2 + z1 * z2"

text \<open>\<^verbatim>\<open>np.linalg.norm\<close>\<close>

fun vec_norm :: "vec3 \<Rightarrow> real" where
  "vec_norm (x, y, z) = sqrt (x * x + y * y + z * z)"

subsection \<open>\<^verbatim>\<open>JointCrossingHandler\<close>\<close>

text \<open>A call of the hook \<^verbatim>\<open>on_joints_crossed\<close>: direction and the two positions.\<close>

datatype crossing_event = JointsCrossed string vec3 vec3

record crossing_handler =
  jc_joint1_name :: string
  jc_joint2_name :: string
  jc_axis :: string
  jc_cooldown_frames :: int
  jc_last_relative_position :: "real option"
  jc_frames_since_last_event :: int
  jc_axis_idx :: nat
  jc_crossed :: "crossing_event list"

definition axis_map :: "string \<rightharpoonup> nat" where
  "axis_map = [''x'' \<mapsto> 0, ''y'' \<mapsto> 1, ''z'' \<mapsto> 2]"

text \<open>\<^verbatim>\<open>JointCrossingHandler.__init__\<close>: an unknown axis raises \<^verbatim>\<open>ValueError\<close>.\<close>

definition crossing_init :: "string \<Rightarrow> string \<Rightarrow> string \<Rightarrow> int \<Rightarrow> error + crossing_handler" where
  "crossing_init joint1_name joint2_name axis cooldown =
     (case axis_map axis of
        None \<Rightarrow> Inl ValueError
      | Some idx \<Rightarrow>
          Inr \<lparr>jc_joint1_name = joint1_name,
               jc_joint2_name = joint2_name,
               jc_axis = axis,
               jc_cooldown_frames = cooldown,
               jc_last_relative_position = None,
               jc_frames_since_last_event = cooldown,
               jc_axis_idx = idx,
               jc_crossed = []\<rparr>)"

text \<open>
  \<^verbatim>\<open>JointCrossingHandler.on_joints_detected\<close>; \<^verbatim>\<open>np.sign\<close> is \<open>sgn\<close>.
\<close>

definition crossing_on_joints_detected ::
  "pose_landmarks \<Rightarrow> crossing_handler \<Rightarrow> error option \<times> crossing_handler" where
  "crossing_on_joints_detected l h0 =
     (let h1 = h0\<lparr>jc_frames_since_last_event := jc_frames_since_last_event h0 + 1\<rparr>
      in case get_joint_position l (jc_joint1_name h1) of
           None \<Rightarrow> (None, h1)
         | Some joint1_pos \<Rightarrow>
         (case get_joint_position l (jc_joint2_name h1) of
            None \<Rightarrow> (None, h1)
          | Some joint2_pos \<Rightarrow>
          (case component joint1_pos (jc_axis_idx h1) of
             Inl e \<Rightarrow> (Some e, h1)
           | Inr c1 \<Rightarrow>
           (case component joint2_pos (jc_axis_idx h1) of
              Inl e \<Rightarrow> (Some e, h1)
            | Inr c2 \<Rightarrow>
              (let current_relative_position = c1 - c2;
                   h2 = (case jc_last_relative_position h1 of
                           None \<Rightarrow> h1
                         | Some last_position \<Rightarrow>
                             if sgn last_position \<noteq> sgn current_relative_position \<and>
                                jc_frames_since_last_event h1 \<ge> jc_cooldown_frames h1
                             then
                               (let direction =
                                      (if current_relative_position > 0
                                       then jc_joint1_name h1 @ '' crossed over '' @ jc_joint2_name h1
                                       else jc_joint2_name h1 @ '' crossed over '' @ jc_joint1_name h1)
                                in h1\<lparr>jc_crossed := jc_crossed h1 @
                                         [JointsCrossed direction joint1_pos joint2_pos],
                                       jc_frames_since_last_event := 0\<rparr>)
                             else h1)
               in (None, h2\<lparr>jc_last_relative_position := Some current_relative_position\<rparr>))))))"

text \<open>A sequence of calls; it stops at the first call that raises.\<close>

fun crossing_run ::
  "pose_landmarks list \<Rightarrow> crossing_handler \<Rightarrow> error option \<times> crossing_handler" where
  "crossing_run [] h = (None, h)"
| "crossing_run (l # ls) h =
     (case crossing_on_joints_detected l h of
        (Some e, h') \<Rightarrow> (Some e, h')
      | (None, h') \<Rightarrow> crossing_run ls h')"

text \<open>
  Frames in which the first joint is at \<open>(v, 0, 0)\<close> and the second at the origin, so
  that the relative position on the x axis is \<open>v\<close>.
\<close>

definition signal_frame :: "string \<Rightarrow> string \<Rightarrow> real \<Rightarrow> pose_landmarks" where
  "signal_frame joint1_name joint2_name v =
     [joint2_name \<mapsto> (0, 0, 0), joint1_name \<mapsto> (v, 0, 0)]"

text \<open>
  The handler that \<^verbatim>\<open>JointCrossingHandler('LEFT_WRIST', 'RIGHT_WRIST', 'x', 2)\<close>
  builds.
\<close>

definition wrists_crossing :: crossing_handler where
  "wrists_crossing =
     \<lparr>jc_joint1_name = ''LEFT_WRIST'',
      jc_joint2_name = ''RIGHT_WRIST'',
      jc_axis = ''x'',
      jc_cooldown_frames = 2,
      jc_last_relative_position = None,
      jc_frames_since_last_event = 2,
      jc_axis_idx = 0,
      jc_crossed = []\<rparr>"

text \<open>That handler after two frames with the left wrist to the right of the right one.\<close>

definition wrists_apart :: crossing_handler where
  "wrists_apart =
     snd (crossing_run (map (signal_frame ''LEFT_WRIST'' ''RIGHT_WRIST'') [1, 1])
            wrists_crossing)"

subsection \<open>\<^verbatim>\<open>JointProximityHandler\<close>\<close>

text \<open>A call of the hook \<^verbatim>\<open>on_joints_close\<close>: the two positions and the distance.\<close>

datatype proximity_event = JointsClose vec3 vec3 real

record proximity_handler =
  jp_joint1_name :: string
  jp_joint2_name :: string
  jp_threshold_distance :: real
  jp_cooldown_frames :: int
  jp_frames_since_last_event :: int
  jp_was_close :: bool
  jp_closed :: "proximity_event list"

text \<open>\<^verbatim>\<open>JointProximityHandler.__init__\<close>\<close>

definition proximity_init :: "string \<Rightarrow> string \<Rightarrow> real \<Rightarrow> int \<Rightarrow> proximity_handler" where
  "proximity_init joint1_name joint2_name threshold_distance cooldown =
     \<lparr>jp_joint1_name = joint1_name,
      jp_joint2_name = joint2_name,
      jp_threshold_distance = threshold_distance,
      jp_cooldown_frames = cooldown,
      jp_frames_since_last_event = cooldown,
      jp_was_close = False,
      jp_closed = []\<rparr>"

text \<open>\<^verbatim>\<open>JointProximityHandler.on_joints_detected\<close>\<close>

definition proximity_on_joints_detected ::
  "pose_landmarks \<Rightarrow> proximity_handler \<Rightarrow> proximity_handler" where
  "proximity_on_joints_detected l h0 =
     (let h1 = h0\<lparr>jp_frames_since_last_event := jp_frames_since_last_event h0 + 1\<rparr>
      in case get_joint_position l (jp_joint1_name h1) of
           None \<Rightarrow> h1
         | Some joint1_pos \<Rightarrow>
         (case get_joint_position l (jp_joint2_name h1) of
            None \<Rightarrow> h1
          | Some joint2_pos \<Rightarrow>
            (let distance = vec_norm (vec_sub joint1_pos joint2_pos);
                 is_close = (distance < jp_threshold_distance h1);
                 h2 = (if is_close \<and> \<not> jp_was_close h1 \<and>
                          jp_frames_since_last_event h1 \<ge> jp_cooldown_frames h1
                       then h1\<lparr>jp_closed := jp_closed h1 @
                                  [JointsClose joint1_pos joint2_pos distance],
                                jp_frames_since_last_event := 0\<rparr>
                       else h1)
             in h2\<lparr>jp_was_close := is_close\<rparr>)))"

fun proximity_run :: "pose_landmarks list \<Rightarrow> proximity_handler \<Rightarrow> proximity_handler" where
  "proximity_run [] h = h"
| "proximity_run (l # ls) h = proximity_run ls (proximity_on_joints_detected l h)"

text \<open>
  The distance between the two joints of a handler in a frame, when both are detected.
\<close>

definition joint_distance :: "proximity_handler \<Rightarrow> pose_landmarks \<Rightarrow> real option" where
  "joint_distance h l =
     (case get_joint_position l (jp_joint1_name h) of
        None \<Rightarrow> None
      | Some joint1_pos \<Rightarrow>
        (case get_joint_position l (jp_joint2_name h) of
           None \<Rightarrow> None
         | Some joint2_pos \<Rightarrow> Some (vec_norm (vec_sub joint1_pos joint2_pos))))"

text \<open>
  Whether the joints were closer than the threshold in the last frame of a sequence in
  which both were detected; \<open>None\<close> when the sequence has no such frame.
\<close>

fun previous_close :: "proximity_handler \<Rightarrow> pose_landmarks list \<Rightarrow> bool option" where
  "previous_close h [] = None"
| "previous_close h (l # ls) =
     (case previous_close h ls of
        Some c \<Rightarrow> Some c
      | None \<Rightarrow>
        (case joint_distance h l of
           None \<Rightarrow> None
         | Some d \<Rightarrow> Some (d < jp_threshold_distance h)))"

text \<open>
  Frames in which the two joints are on the x axis at distance \<open>d\<close> (for \<open>d \<ge> 0\<close>).
\<close>

definition distance_frame :: "string \<Rightarrow> string \<Rightarrow> real \<Rightarrow> pose_landmarks" where
  "distance_frame joint1_name joint2_name d =
     [joint2_name \<mapsto> (0, 0, 0), joint1_name \<mapsto> (d, 0, 0)]"

subsection \<open>\<^verbatim>\<open>JointAngleHandler\<close>\<close>

text \<open>
  A call of the hook \<^verbatim>\<open>on_angle_threshold_crossed\<close>, with the angle. An angle is
  \<open>None\<close> when the computation yields not-a-number (one of the two arms has length
  zero); every comparison with it is false.
\<close>

datatype angle_event = AngleThresholdCrossed "real option"

record angle_handler =
  ja_joint1_name :: string
  ja_joint2_name :: string
  ja_joint3_name :: string
  ja_angle_threshold :: real
  ja_comparison :: string
  ja_cooldown_frames :: int
  ja_frames_since_last_event :: int
  ja_threshold_crossed :: bool
  ja_fired :: "angle_event list"

text \<open>\<^verbatim>\<open>JointAngleHandler.__init__\<close>\<close>

definition angle_init ::
  "string \<Rightarrow> string \<Rightarrow> string \<Rightarrow> real \<Rightarrow> string \<Rightarrow> int \<Rightarrow> angle_handler" where
  "angle_init joint1_name joint2_name joint3_name angle_threshold comparison cooldown =
     \<lparr>ja_joint1_name = joint1_name,
      ja_joint2_name = joint2_name,
      ja_joint3_name = joint3_name,
      ja_angle_threshold = angle_threshold,
      ja_comparison = comparison,
      ja_cooldown_frames = cooldown,
      ja_frames_since_last_event = cooldown,
      ja_threshold_crossed = False,
      ja_fired = []\<rparr>"

text \<open>
  \<^verbatim>\<open>JointAngleHandler.calculate_angle\<close>: the angle at \<open>b\<close> in degrees, from the cosine
  clipped to the interval from -1 to 1.
\<close>

definition calculate_angle :: "vec3 \<Rightarrow> vec3 \<Rightarrow> vec3 \<Rightarrow> real option" where
  "calculate_angle a b c =
     (let ba = vec_sub a b;
          bc = vec_sub c b
      in if vec_norm ba * vec_norm bc = 0 then None
         else
           (let cosine_angle = vec_dot ba bc / (vec_norm ba * vec_norm bc);
                angle = arccos (max (-1) (min 1 cosine_angle))
            in Some (angle * 180 / pi)))"

text \<open>\<^verbatim>\<open>JointAngleHandler.on_joints_detected\<close>\<close>

definition angle_on_joints_detected :: "pose_landmarks \<Rightarrow> angle_handler \<Rightarrow> angle_handler" where
  "angle_on_joints_detected l h0 =
     (let h1 = h0\<lparr>ja_frames_since_last_event := ja_frames_since_last_event h0 + 1\<rparr>
      in case get_joint_position l (ja_joint1_name h1) of
           None \<Rightarrow> h1
         | Some joint1_pos \<Rightarrow>
         (case get_joint_position l (ja_joint2_name h1) of
            None \<Rightarrow> h1
          | Some joint2_pos \<Rightarrow>
          (case get_joint_position l (ja_joint3_name h1) of
             None \<Rightarrow> h1
           | Some joint3_pos \<Rightarrow>
             (let angle = calculate_angle joint1_pos joint2_pos joint3_pos;
                  threshold_currently_crossed =
                    (ja_comparison h1 = ''less'' \<and>
                       (case angle of None \<Rightarrow> False | Some a \<Rightarrow> a < ja_angle_threshold h1) \<or>
                     ja_comparison h1 = ''greater'' \<and>
                       (case angle of None \<Rightarrow> False | Some a \<Rightarrow> a > ja_angle_threshold h1));
                  h2 = (if threshold_currently_crossed \<and> \<not> ja_threshold_crossed h1 \<and>
                           ja_frames_since_last_event h1 \<ge> ja_cooldown_frames h1
                        then h1\<lparr>ja_fired := ja_fired h1 @ [AngleThresholdCrossed angle],
                                 ja_frames_since_last_event := 0\<rparr>
                        else h1)
              in h2\<lparr>ja_threshold_crossed := threshold_currently_crossed\<rparr>))))"

fun angle_run :: "pose_landmarks list \<Rightarrow> angle_handler \<Rightarrow> angle_handler" where
  "angle_run [] h = h"
| "angle_run (l # ls) h = angle_run ls (angle_on_joints_detected l h)"

text \<open>
  Whether the threshold condition of a handler holds in a frame; \<open>None\<close> when one of
  the three joints is missing.
\<close>

definition threshold_reached :: "angle_handler \<Rightarrow> pose_landmarks \<Rightarrow> bool option" where
  "threshold_reached h l =
     (case get_joint_position l (ja_joint1_name h) of
        None \<Rightarrow> None
      | Some joint1_pos \<Rightarrow>
        (case get_joint_position l (ja_joint2_name h) of
           None \<Rightarrow> None
         | Some joint2_pos \<Rightarrow>
           (case get_joint_position l (ja_joint3_name h) of
              None \<Rightarrow> None
            | Some joint3_pos \<Rightarrow>
                Some (ja_comparison h = ''less'' \<and>
                        (case calculate_angle joint1_pos joint2_pos joint3_pos of
                           None \<Rightarrow> False | Some a \<Rightarrow> a < ja_angle_threshold h) \<or>
                      ja_comparison h = ''greater'' \<and>
                        (case calculate_angle joint1_pos joint2_pos joint3_pos of
                           None \<Rightarrow> False | Some a \<Rightarrow> a > ja_angle_threshold h)))))"

text \<open>
  A frame with the shoulder at \<open>(1, 0, 0)\<close>, the elbow at the origin and the wrist at
  \<open>(0, 1, 0)\<close>: the arm is bent at a right angle.
\<close>

definition right_angle_frame :: pose_landmarks where
  "right_angle_frame =
     [''LEFT_SHOULDER'' \<mapsto> (1, 0, 0), ''LEFT_ELBOW'' \<mapsto> (0, 0, 0),
      ''LEFT_WRIST'' \<mapsto> (0, 1, 0)]"

section \<open>Single-frame properties\<close>

lemma all_joints_detected_simps:
  "all_joints_detected [] \<longleftrightarrow> True"
  "all_joints_detected (None # js) \<longleftrightarrow> False"
  "all_joints_detected (Some j # js) \<longleftrightarrow> all_joints_detected js"
  by (simp_all add: all_joints_detected_def)

lemmas step_defs = on_joints_detected_def complete_rep_def log_rep_def Let_def

lemmas squat_defs = metrics_frame_def squat_like_profile_def init_detector_def
  all_joints_detected_simps squat_metrics_def squat_is_in_rep_position_def
  squat_is_at_starting_position_def squat_assess_rep_quality_def
  squat_update_best_metrics_def observe_def in_position_frame_def at_start_frame_def

text \<open>
  The values that the state machine reads off a frame decide the step: when the frame is
  observed, the metrics and the two predicates were computed without an exception.
\<close>

lemma observe_Observed:
  "observe p f = Observed a b \<longleftrightarrow>
     all_joints_detected (map snd (get_required_joints p (landmarks f))) \<and>
     (\<exists>m. calculate_metrics p (get_required_joints p (landmarks f)) = Inr m \<and>
          is_in_rep_position p m = Inr a \<and> is_at_starting_position p m = Inr b)"
  by (auto simp: observe_def Let_def split: sum.splits)

lemma at_start_frame_iff: "at_start_frame p f \<longleftrightarrow> (\<exists>a. observe p f = Observed a True)"
  by (auto simp: at_start_frame_def split: observation.splits)

lemma in_position_frame_iff: "in_position_frame p f \<longleftrightarrow> (\<exists>b. observe p f = Observed True b)"
  by (auto simp: in_position_frame_def split: observation.splits)

lemma run_append:
  "run p (fs @ gs) s =
     (case run p fs s of (Some e, s') \<Rightarrow> (Some e, s') | (None, s') \<Rightarrow> run p gs s')"
  by (induction fs arbitrary: s) (auto split: prod.splits option.splits)

subsection \<open>Frames with a missing joint\<close>

text \<open>
  Claim C5. When at least one required joint of the frame is undetected, the call returns
  normally and the only change of state is that \<open>frames_since_last_rep\<close> grows by one:
  the counter of repetitions, both flags, the best metrics, the start time, the log and
  the notifications are as before, and no method of the profile other than
  \<open>get_required_joints\<close> has a say in the result. In every call, whatever the frame,
  the counter \<open>frames_since_last_rep\<close> is incremented first: it ends one higher than it
  was, unless this very call counted a repetition and reset it to 0.
\<close>

theorem missing_joint_frame_effect:
  "(\<not> all_joints_detected (map snd (get_required_joints p (landmarks f))) \<longrightarrow>
      on_joints_detected p f s =
        (None, s\<lparr>frames_since_last_rep := frames_since_last_rep s + 1\<rparr>)) \<and>
   frames_since_last_rep (snd (on_joints_detected p f s)) =
     (if rep_count (snd (on_joints_detected p f s)) = rep_count s
      then frames_since_last_rep s + 1 else 0)"
  by (auto simp: step_defs split: sum.splits option.splits prod.splits)

theorem missing_joint_frame_effect_witness:
  "\<not> all_joints_detected (map snd (get_required_joints (squat_like_profile 30)
        (landmarks \<lparr>landmarks = None, now = 0, sink_ok = True\<rparr>))) \<and>
   on_joints_detected (squat_like_profile 30) \<lparr>landmarks = None, now = 0, sink_ok = True\<rparr>
       (init_detector (squat_like_profile 30)) =
     (None, (init_detector (squat_like_profile 30))\<lparr>frames_since_last_rep := 31\<rparr>)"
  using missing_joint_frame_effect [of "squat_like_profile 30"
      "\<lparr>landmarks = None, now = 0, sink_ok = True\<rparr>" "init_detector (squat_like_profile 30)"]
  by (simp add: squat_defs)

subsection \<open>Order of the transitions within one call\<close>

text \<open>
  Claim C4. No single call both counts a repetition and starts a new one. A call that
  changes \<open>rep_count\<close> started in the rep position and ends outside it, with the start
  time untouched; a call that finds the detector in the rep position on a frame at the
  starting position takes the return branch, whatever the in-position predicate says;
  and a call that enters the rep position leaves \<open>rep_count\<close> as it was. So a new
  repetition begins in a later call than the one that counted the previous one.
\<close>

theorem single_frame_tie_break:
  "(rep_count (snd (on_joints_detected p f s)) \<noteq> rep_count s \<longrightarrow>
      in_rep_position s \<and>
      \<not> in_rep_position (snd (on_joints_detected p f s)) \<and>
      rep_start_time (snd (on_joints_detected p f s)) = rep_start_time s) \<and>
   (in_rep_position s \<and> at_start_frame p f \<longrightarrow>
      \<not> in_rep_position (snd (on_joints_detected p f s)) \<and>
      rep_start_time (snd (on_joints_detected p f s)) = rep_start_time s) \<and>
   (\<not> in_rep_position s \<and> in_rep_position (snd (on_joints_detected p f s)) \<longrightarrow>
      rep_count (snd (on_joints_detected p f s)) = rep_count s)"
  by (auto simp: step_defs observe_def at_start_frame_def
           split: sum.splits option.splits prod.splits)

text \<open>
  The witness: the sixth frame of the squat scenario counts a repetition (the detector
  is in the rep position since the third frame), and the same frame as third frame of a fresh
  detector would enter the rep position.
\<close>

theorem single_frame_tie_break_witness:
  "rep_count (snd (on_joints_detected (squat_like_profile 2) (metrics_frame 170 0.30 6)
       squat_bottom)) \<noteq> rep_count squat_bottom \<and>
   in_rep_position squat_bottom \<and>
   at_start_frame (squat_like_profile 2) (metrics_frame 170 0.30 6) \<and>
   \<not> in_rep_position (snd (on_joints_detected (squat_like_profile 2)
       (metrics_frame 170 0.30 6) squat_bottom)) \<and>
   rep_start_time (snd (on_joints_detected (squat_like_profile 2)
       (metrics_frame 170 0.30 6) squat_bottom)) = Some 3 \<and>
   \<not> in_rep_position (init_detector (squat_like_profile 2)) \<and>
   in_rep_position (snd (on_joints_detected (squat_like_profile 2)
       (metrics_frame 95 0.10 3) (init_detector (squat_like_profile 2)))) \<and>
   rep_count (snd (on_joints_detected (squat_like_profile 2)
       (metrics_frame 95 0.10 3) (init_detector (squat_like_profile 2)))) = 0"
  using single_frame_tie_break [of "squat_like_profile 2" "metrics_frame 170 0.30 6" squat_bottom]
    single_frame_tie_break [of "squat_like_profile 2" "metrics_frame 95 0.10 3"
      "init_detector (squat_like_profile 2)"]
  by (simp add: squat_defs step_defs squat_bottom_def scenario_frames_def)

subsection \<open>Return to the start before the cooldown has elapsed\<close>

text \<open>While the detector is outside the rep position, the stored best metrics are dead:
  replacing them changes neither the exception nor anything else of the state that a
  call, or a run of calls, produces.\<close>

lemma ready_step_best_irrelevant:
  assumes "\<not> in_rep_position s"
  shows "fst (on_joints_detected p f (s\<lparr>best_metrics := b\<rparr>)) = fst (on_joints_detected p f s) \<and>
         (snd (on_joints_detected p f (s\<lparr>best_metrics := b\<rparr>)) = snd (on_joints_detected p f s) \<or>
          \<not> in_rep_position (snd (on_joints_detected p f s)) \<and>
          snd (on_joints_detected p f (s\<lparr>best_metrics := b\<rparr>)) =
            (snd (on_joints_detected p f s))\<lparr>best_metrics := b\<rparr>)"
  using assms
  by (auto simp: step_defs split: sum.splits option.splits prod.splits)

lemma ready_run_best_irrelevant:
  assumes "\<not> in_rep_position s"
  shows "fst (run p fs (s\<lparr>best_metrics := b\<rparr>)) = fst (run p fs s) \<and>
         (snd (run p fs (s\<lparr>best_metrics := b\<rparr>)) = snd (run p fs s) \<or>
          snd (run p fs (s\<lparr>best_metrics := b\<rparr>)) = (snd (run p fs s))\<lparr>best_metrics := b\<rparr>)"
  using assms
proof (induction fs arbitrary: s)
  case Nil
  then show ?case by simp
next
  case (Cons f fs)
  obtain e s' where st: "on_joints_detected p f s = (e, s')"
    by (cases "on_joints_detected p f s")
  obtain e2 s2 where st2: "on_joints_detected p f (s\<lparr>best_metrics := b\<rparr>) = (e2, s2)"
    by (cases "on_joints_detected p f (s\<lparr>best_metrics := b\<rparr>)")
  from ready_step_best_irrelevant [OF Cons.prems, of p f b] st st2
  have e: "e2 = e" and alt: "s2 = s' \<or> \<not> in_rep_position s' \<and> s2 = s'\<lparr>best_metrics := b\<rparr>"
    by auto
  show ?case
  proof (cases e)
    case (Some x)
    with st st2 e alt show ?thesis by auto
  next
    case None
    from alt show ?thesis
    proof
      assume "s2 = s'"
      with st st2 e None show ?thesis by simp
    next
      assume "\<not> in_rep_position s' \<and> s2 = s'\<lparr>best_metrics := b\<rparr>"
      with Cons.IH [of s'] st st2 e None show ?thesis by simp
    qed
  qed
qed

text \<open>
  Claim C3. Take a call on a frame at the starting position, with the detector in the rep
  position, where the counter \<open>frames_since_last_rep\<close>, as the cooldown test reads it
  (after the increment that opens the call), is below \<open>cooldown_frames\<close>. The call
  returns normally; the detector is ready again (\<open>in_rep_position\<close> false,
  \<open>returned_to_start\<close> true); \<open>rep_count\<close>, the log and the notifications are
  unchanged; \<open>frames_since_last_rep\<close> is not reset (it is one more than before). The
  best metrics of the abandoned repetition never reach a log entry: whatever frames
  follow, the log and the count are the same as if those best metrics had been any other
  dictionary \<open>b\<close>.
\<close>

theorem cooldown_suppression:
  assumes "in_rep_position s"
    and "at_start_frame p f"
    and "frames_since_last_rep s + 1 < cooldown_frames p"
  shows "fst (on_joints_detected p f s) = None \<and>
         \<not> in_rep_position (snd (on_joints_detected p f s)) \<and>
         returned_to_start (snd (on_joints_detected p f s)) \<and>
         rep_count (snd (on_joints_detected p f s)) = rep_count s \<and>
         rep_log (snd (on_joints_detected p f s)) = rep_log s \<and>
         notified (snd (on_joints_detected p f s)) = notified s \<and>
         frames_since_last_rep (snd (on_joints_detected p f s)) = frames_since_last_rep s + 1 \<and>
         best_metrics (snd (on_joints_detected p f s)) = best_metrics s \<and>
         (\<forall>fs b. rep_log (snd (run p fs ((snd (on_joints_detected p f s))\<lparr>best_metrics := b\<rparr>))) =
                   rep_log (snd (run p fs (snd (on_joints_detected p f s)))) \<and>
                 rep_count (snd (run p fs ((snd (on_joints_detected p f s))\<lparr>best_metrics := b\<rparr>))) =
                   rep_count (snd (run p fs (snd (on_joints_detected p f s)))))"
proof -
  from assms(2) obtain a where obs: "observe p f = Observed a True"
    by (auto simp: at_start_frame_iff)
  have single:
    "fst (on_joints_detected p f s) = None \<and>
     \<not> in_rep_position (snd (on_joints_detected p f s)) \<and>
     returned_to_start (snd (on_joints_detected p f s)) \<and>
     rep_count (snd (on_joints_detected p f s)) = rep_count s \<and>
     rep_log (snd (on_joints_detected p f s)) = rep_log s \<and>
     notified (snd (on_joints_detected p f s)) = notified s \<and>
     frames_since_last_rep (snd (on_joints_detected p f s)) = frames_since_last_rep s + 1 \<and>
     best_metrics (snd (on_joints_detected p f s)) = best_metrics s"
    using obs assms(1,3) by (auto simp: observe_Observed on_joints_detected_def Let_def)
  then have ready: "\<not> in_rep_position (snd (on_joints_detected p f s))" by simp
  have "rep_log (snd (run p fs ((snd (on_joints_detected p f s))\<lparr>best_metrics := b\<rparr>))) =
          rep_log (snd (run p fs (snd (on_joints_detected p f s)))) \<and>
        rep_count (snd (run p fs ((snd (on_joints_detected p f s))\<lparr>best_metrics := b\<rparr>))) =
          rep_count (snd (run p fs (snd (on_joints_detected p f s))))" for fs b
    using ready_run_best_irrelevant [OF ready, of p fs b] by auto
  with single show ?thesis by blast
qed

text \<open>
  The witness: with the cooldown of 30 frames, a second squat right after a counted one
  returns to the start two frames after the count and is not counted.
\<close>

theorem cooldown_suppression_witness:
  "in_rep_position squat_second_bottom \<and>
   at_start_frame (squat_like_profile 30) (metrics_frame 170 0.30 8) \<and>
   frames_since_last_rep squat_second_bottom + 1 < cooldown_frames (squat_like_profile 30) \<and>
   rep_count squat_second_bottom = 1 \<and>
   fst (on_joints_detected (squat_like_profile 30) (metrics_frame 170 0.30 8)
          squat_second_bottom) = None \<and>
   \<not> in_rep_position (snd (on_joints_detected (squat_like_profile 30)
          (metrics_frame 170 0.30 8) squat_second_bottom)) \<and>
   rep_count (snd (on_joints_detected (squat_like_profile 30) (metrics_frame 170 0.30 8)
          squat_second_bottom)) = 1 \<and>
   frames_since_last_rep (snd (on_joints_detected (squat_like_profile 30)
          (metrics_frame 170 0.30 8) squat_second_bottom)) = 2"
proof -
  have h1: "in_rep_position squat_second_bottom"
    by (simp add: squat_second_bottom_def scenario_frames_def squat_defs step_defs)
  have h2: "at_start_frame (squat_like_profile 30) (metrics_frame 170 0.30 8)"
    by (simp add: squat_defs Let_def)
  have v: "frames_since_last_rep squat_second_bottom = 1 \<and> rep_count squat_second_bottom = 1"
    by (simp add: squat_second_bottom_def scenario_frames_def squat_defs step_defs)
  then have h3: "frames_since_last_rep squat_second_bottom + 1
      < cooldown_frames (squat_like_profile 30)"
    by (simp add: squat_like_profile_def)
  from cooldown_suppression [OF h1 h2 h3] h1 h2 h3 v show ?thesis by simp
qed

subsection \<open>Failure of the log file\<close>

text \<open>
  Claim C8. Take a call that counts a repetition (detector in the rep position, frame at
  the starting position, cooldown elapsed) and reaches the append to the log file (the
  start time is set, the quality is graded), and let the log file fail to open. The call
  raises \<open>OSError\<close>, and the state it leaves has \<open>rep_count\<close> incremented and
  \<open>frames_since_last_rep\<close> reset to 0, both flags switched to ready, and the log and
  the best metrics as before: the failure rolls nothing back.
\<close>

theorem sink_failure_keeps_count:
  assumes "in_rep_position s"
    and "at_start_frame p f"
    and "cooldown_frames p \<le> frames_since_last_rep s + 1"
    and "rep_start_time s = Some t0"
    and "assess_rep_quality p (best_metrics s) = Inr quality"
    and "\<not> sink_ok f"
  shows "fst (on_joints_detected p f s) = Some OSError \<and>
         rep_count (snd (on_joints_detected p f s)) = rep_count s + 1 \<and>
         frames_since_last_rep (snd (on_joints_detected p f s)) = 0 \<and>
         \<not> in_rep_position (snd (on_joints_detected p f s)) \<and>
         returned_to_start (snd (on_joints_detected p f s)) \<and>
         rep_log (snd (on_joints_detected p f s)) = rep_log s \<and>
         best_metrics (snd (on_joints_detected p f s)) = best_metrics s \<and>
         rep_start_time (snd (on_joints_detected p f s)) = rep_start_time s"
proof -
  from assms(2) obtain a where "observe p f = Observed a True"
    by (auto simp: at_start_frame_iff)
  with assms(1,3-6) show ?thesis
    by (auto simp: observe_Observed step_defs)
qed

text \<open>The witness: the sixth frame of the squat scenario with a log file that fails.\<close>

theorem sink_failure_keeps_count_witness:
  "in_rep_position squat_bottom \<and>
   at_start_frame (squat_like_profile 2) ((metrics_frame 170 0.30 6)\<lparr>sink_ok := False\<rparr>) \<and>
   cooldown_frames (squat_like_profile 2) \<le> frames_since_last_rep squat_bottom + 1 \<and>
   rep_start_time squat_bottom = Some 3 \<and>
   assess_rep_quality (squat_like_profile 2) (best_metrics squat_bottom) =
     Inr ''Excellent - ATG (Ass to Grass)'' \<and>
   \<not> sink_ok ((metrics_frame 170 0.30 6)\<lparr>sink_ok := False\<rparr>) \<and>
   rep_count squat_bottom = 0 \<and>
   fst (on_joints_detected (squat_like_profile 2)
          ((metrics_frame 170 0.30 6)\<lparr>sink_ok := False\<rparr>) squat_bottom) = Some OSError \<and>
   rep_count (snd (on_joints_detected (squat_like_profile 2)
          ((metrics_frame 170 0.30 6)\<lparr>sink_ok := False\<rparr>) squat_bottom)) = 1 \<and>
   frames_since_last_rep (snd (on_joints_detected (squat_like_profile 2)
          ((metrics_frame 170 0.30 6)\<lparr>sink_ok := False\<rparr>) squat_bottom)) = 0"
proof -
  have h1: "in_rep_position squat_bottom"
    and h4: "rep_start_time squat_bottom = Some 3"
    and v: "frames_since_last_rep squat_bottom = 7" "rep_count squat_bottom = 0"
    by (simp_all add: squat_bottom_def scenario_frames_def squat_defs step_defs)
  have h2: "at_start_frame (squat_like_profile 2)
      ((metrics_frame 170 0.30 6)\<lparr>sink_ok := False\<rparr>)"
    by (simp add: squat_defs Let_def)
  have h3: "cooldown_frames (squat_like_profile 2) \<le> frames_since_last_rep squat_bottom + 1"
    using v by (simp add: squat_like_profile_def)
  have h5: "assess_rep_quality (squat_like_profile 2) (best_metrics squat_bottom) =
      Inr ''Excellent - ATG (Ass to Grass)''"
    by (simp add: squat_bottom_def scenario_frames_def squat_defs step_defs)
  have h6: "\<not> sink_ok ((metrics_frame 170 0.30 6)\<lparr>sink_ok := False\<rparr>)"
    by simp
  from sink_failure_keeps_count [OF h1 h2 h3 h4 h5 h6] h1 h2 h3 h4 h5 h6 v
  show ?thesis by simp
qed

subsection \<open>The start time of a repetition in progress\<close>

text \<open>
  Whenever a detector that started from its construction is in the rep position, the
  start time is set: the subtraction in \<open>complete_rep\<close> never meets \<open>None\<close>, and a
  counted repetition always reaches the grading and the log.
\<close>

lemma start_time_step:
  assumes "in_rep_position s \<longrightarrow> rep_start_time s \<noteq> None"
  shows "in_rep_position (snd (on_joints_detected p f s)) \<longrightarrow>
         rep_start_time (snd (on_joints_detected p f s)) \<noteq> None"
  using assms
  by (auto simp: step_defs split: sum.splits option.splits prod.splits)

lemma active_has_start_time:
  "in_rep_position (after_calls p fs (init_detector p)) \<Longrightarrow>
   rep_start_time (after_calls p fs (init_detector p)) \<noteq> None"
proof -
  have "in_rep_position s \<longrightarrow> rep_start_time s \<noteq> None \<Longrightarrow>
        in_rep_position (after_calls p fs s) \<longrightarrow> rep_start_time (after_calls p fs s) \<noteq> None"
    for s
  proof (induction fs arbitrary: s)
    case Nil
    then show ?case by simp
  next
    case (Cons f fs)
    from Cons.IH [OF start_time_step [OF Cons.prems]] show ?case by simp
  qed
  from this [of "init_detector p"] show
    "in_rep_position (after_calls p fs (init_detector p)) \<Longrightarrow>
     rep_start_time (after_calls p fs (init_detector p)) \<noteq> None"
    by (simp add: init_detector_def)
qed

subsection \<open>The scenario of the specification\<close>

text \<open>
  Claim C2. A fresh squat-like detector with a cooldown of 2 frames is fed the six frames
  (170, 0.30), (170, 0.30), (95, 0.10), (90, 0.08), (95, 0.10), (170, 0.30). No call
  raises. After each of the six frames the detector is, in this order: ready, ready, in
  the rep position (entered at frame 3, best depth 0.10), in the rep position with best
  depth 0.08 (updated at frame 4), still so at frame 5, and ready again at frame 6. At
  the end \<open>rep_count\<close> is 1 and the log holds exactly one entry, numbered 1, whose best
  depth is 0.08 (with the knee angle 90 of that frame).
\<close>

theorem squat_scenario_end_to_end:
  "fst (run (squat_like_profile 2) scenario_frames (init_detector (squat_like_profile 2))) = None \<and>
   map (\<lambda>s. (in_rep_position s, returned_to_start s, rep_count s,
             best_metrics s ''squat_depth'', length (rep_log s)))
     (run_states (squat_like_profile 2) scenario_frames (init_detector (squat_like_profile 2))) =
     [(False, True, 0, None, 0),
      (False, True, 0, None, 0),
      (True, False, 0, Some 0.10, 0),
      (True, False, 0, Some 0.08, 0),
      (True, False, 0, Some 0.08, 0),
      (False, True, 1, Some 0.08, 1)] \<and>
   rep_count (snd (run (squat_like_profile 2) scenario_frames
       (init_detector (squat_like_profile 2)))) = 1 \<and>
   map (\<lambda>e. (entry_rep_num e, entry_metrics e ''squat_depth'', entry_metrics e ''knee_angle''))
     (rep_log (snd (run (squat_like_profile 2) scenario_frames
       (init_detector (squat_like_profile 2))))) = [(1, Some 0.08, Some 90)]"
  by (simp add: scenario_frames_def squat_defs step_defs)

section \<open>Properties of frame sequences\<close>

subsection \<open>One entry and one counted return count one repetition\<close>

text \<open>A ready detector stays ready, and counts nothing, on frames that are not in
  position; this holds whether or not a call raises.\<close>

lemma ready_step:
  assumes "\<not> in_rep_position s" and "returned_to_start s" and "\<not> in_position_frame p f"
  shows "\<not> in_rep_position (snd (on_joints_detected p f s)) \<and>
         returned_to_start (snd (on_joints_detected p f s)) \<and>
         rep_count (snd (on_joints_detected p f s)) = rep_count s"
  using assms
  by (auto simp: on_joints_detected_def Let_def in_position_frame_def observe_def
           split: sum.splits)

lemma ready_run:
  assumes "\<not> in_rep_position s" and "returned_to_start s"
    and "\<forall>f \<in> set fs. \<not> in_position_frame p f"
  shows "\<not> in_rep_position (snd (run p fs s)) \<and>
         returned_to_start (snd (run p fs s)) \<and>
         rep_count (snd (run p fs s)) = rep_count s"
  using assms
proof (induction fs arbitrary: s)
  case Nil
  then show ?case by simp
next
  case (Cons f fs)
  obtain e s' where st: "on_joints_detected p f s = (e, s')"
    by (cases "on_joints_detected p f s")
  from ready_step [of s p f] Cons.prems st
  have s': "\<not> in_rep_position s'" "returned_to_start s'" "rep_count s' = rep_count s"
    by auto
  show ?case
  proof (cases e)
    case None
    with Cons.IH [of s'] s' Cons.prems(3) st show ?thesis by simp
  next
    case (Some x)
    with s' st show ?thesis by simp
  qed
qed

text \<open>A ready detector enters the rep position on a frame in position.\<close>

lemma entry_step:
  assumes "\<not> in_rep_position s" and "returned_to_start s" and "in_position_frame p f"
  shows "fst (on_joints_detected p f s) = None \<and>
         in_rep_position (snd (on_joints_detected p f s)) \<and>
         rep_count (snd (on_joints_detected p f s)) = rep_count s"
proof -
  from assms(3) obtain b where "observe p f = Observed True b"
    by (auto simp: in_position_frame_iff)
  with assms(1,2) show ?thesis
    by (auto simp: observe_Observed on_joints_detected_def Let_def)
qed

text \<open>A detector in the rep position stays there, and counts nothing, on frames that
  are not at the starting position.\<close>

lemma active_step:
  assumes "in_rep_position s" and "\<not> at_start_frame p f"
  shows "in_rep_position (snd (on_joints_detected p f s)) \<and>
         rep_count (snd (on_joints_detected p f s)) = rep_count s"
  using assms
  by (auto simp: on_joints_detected_def Let_def at_start_frame_def observe_def
           split: sum.splits prod.splits)

lemma active_run:
  assumes "in_rep_position s" and "\<forall>f \<in> set fs. \<not> at_start_frame p f"
  shows "in_rep_position (snd (run p fs s)) \<and> rep_count (snd (run p fs s)) = rep_count s"
  using assms
proof (induction fs arbitrary: s)
  case Nil
  then show ?case by simp
next
  case (Cons f fs)
  obtain e s' where st: "on_joints_detected p f s = (e, s')"
    by (cases "on_joints_detected p f s")
  from active_step [of s p f] Cons.prems st
  have s': "in_rep_position s'" "rep_count s' = rep_count s"
    by auto
  show ?case
  proof (cases e)
    case None
    with Cons.IH [of s'] s' Cons.prems(2) st show ?thesis by simp
  next
    case (Some x)
    with s' st show ?thesis by simp
  qed
qed

text \<open>A return to the start with the cooldown elapsed counts one repetition and leaves
  the detector ready, even when the call raises after counting.\<close>

lemma return_step:
  assumes "in_rep_position s" and "at_start_frame p f"
    and "cooldown_frames p \<le> frames_since_last_rep s + 1"
  shows "\<not> in_rep_position (snd (on_joints_detected p f s)) \<and>
         returned_to_start (snd (on_joints_detected p f s)) \<and>
         rep_count (snd (on_joints_detected p f s)) = rep_count s + 1"
proof -
  from assms(2) obtain a where "observe p f = Observed a True"
    by (auto simp: at_start_frame_iff)
  with assms(1,3) show ?thesis
    by (auto simp: observe_Observed step_defs split: option.splits sum.splits)
qed

text \<open>
  Claim C1. Let a ready detector process a frame sequence made of: frames that are not
  in position; one frame in position (the single entry into the rep position); any
  number of frames that are not at the starting position, however the metrics move
  meanwhile and with skipped frames allowed; one frame at the starting position, met
  with \<open>frames_since_last_rep\<close> (as the cooldown test reads it) at least
  \<open>cooldown_frames\<close>; and frames that are not in position. If no call before the return
  raises, \<open>rep_count\<close> is exactly one higher at the end of the sequence.
\<close>

theorem no_double_counting:
  assumes ready: "\<not> in_rep_position s" "returned_to_start s"
    and pre: "\<forall>f \<in> set pre. \<not> in_position_frame p f"
    and entry: "in_position_frame p e"
    and mid: "\<forall>f \<in> set mid. \<not> at_start_frame p f"
    and ret: "at_start_frame p r"
    and no_raise: "fst (run p (pre @ e # mid) s) = None"
    and cooldown: "cooldown_frames p \<le> frames_since_last_rep (snd (run p (pre @ e # mid) s)) + 1"
    and post: "\<forall>f \<in> set post. \<not> in_position_frame p f"
  shows "rep_count (snd (run p (pre @ e # mid @ r # post) s)) = rep_count s + 1"
proof -
  obtain s1 where r1: "run p pre s = (None, s1)"
    using no_raise by (cases "run p pre s") (auto simp: run_append split: option.splits)
  from ready_run [OF ready pre] r1
  have s1: "\<not> in_rep_position s1" "returned_to_start s1" "rep_count s1 = rep_count s"
    by auto
  obtain s2 where r2: "on_joints_detected p e s1 = (None, s2)"
    using entry_step [OF s1(1,2) entry] by (cases "on_joints_detected p e s1") auto
  from entry_step [OF s1(1,2) entry] r2
  have s2: "in_rep_position s2" "rep_count s2 = rep_count s"
    using s1(3) by auto
  obtain s3 where r3: "run p mid s2 = (None, s3)"
    using no_raise r1 r2 by (cases "run p mid s2") (auto simp: run_append split: option.splits)
  from active_run [OF s2(1) mid] r3
  have s3: "in_rep_position s3" "rep_count s3 = rep_count s"
    using s2(2) by auto
  have before: "run p (pre @ e # mid) s = (None, s3)"
    using r1 r2 r3 by (simp add: run_append)
  obtain e4 s4 where r4: "on_joints_detected p r s3 = (e4, s4)"
    by (cases "on_joints_detected p r s3")
  from cooldown before have "cooldown_frames p \<le> frames_since_last_rep s3 + 1"
    by simp
  from return_step [OF s3(1) ret this] r4
  have s4: "\<not> in_rep_position s4" "returned_to_start s4" "rep_count s4 = rep_count s + 1"
    using s3(2) by auto
  have whole: "run p (pre @ e # mid @ r # post) s = run p (r # post) s3"
    using run_append [of p "pre @ e # mid" "r # post" s] before by simp
  show ?thesis
  proof (cases e4)
    case None
    with whole r4 have "run p (pre @ e # mid @ r # post) s = run p post s4"
      by simp
    with ready_run [OF s4(1,2) post] s4(3) show ?thesis by simp
  next
    case (Some x)
    with whole r4 have "run p (pre @ e # mid @ r # post) s = (Some x, s4)"
      by simp
    with s4(3) show ?thesis by simp
  qed
qed

text \<open>
  The witness: the squat scenario, with a frame without pose while the detector is in
  the rep position and two more standing frames after the return.
\<close>

theorem no_double_counting_witness:
  "\<not> in_rep_position (init_detector (squat_like_profile 2)) \<and>
   returned_to_start (init_detector (squat_like_profile 2)) \<and>
   \<not> in_position_frame (squat_like_profile 2) (metrics_frame 170 0.30 1) \<and>
   \<not> in_position_frame (squat_like_profile 2) (metrics_frame 170 0.30 2) \<and>
   in_position_frame (squat_like_profile 2) (metrics_frame 95 0.10 3) \<and>
   \<not> at_start_frame (squat_like_profile 2) (metrics_frame 90 0.08 4) \<and>
   \<not> at_start_frame (squat_like_profile 2) \<lparr>landmarks = None, now = 4.5, sink_ok = True\<rparr> \<and>
   \<not> at_start_frame (squat_like_profile 2) (metrics_frame 95 0.10 5) \<and>
   at_start_frame (squat_like_profile 2) (metrics_frame 170 0.30 6) \<and>
   \<not> in_position_frame (squat_like_profile 2) (metrics_frame 170 0.30 7) \<and>
   \<not> in_position_frame (squat_like_profile 2) (metrics_frame 165 0.28 8) \<and>
   fst (run (squat_like_profile 2)
     ([metrics_frame 170 0.30 1, metrics_frame 170 0.30 2] @ metrics_frame 95 0.10 3 #
      [metrics_frame 90 0.08 4, \<lparr>landmarks = None, now = 4.5, sink_ok = True\<rparr>,
       metrics_frame 95 0.10 5]) (init_detector (squat_like_profile 2))) = None \<and>
   cooldown_frames (squat_like_profile 2) \<le>
     frames_since_last_rep (snd (run (squat_like_profile 2)
       ([metrics_frame 170 0.30 1, metrics_frame 170 0.30 2] @ metrics_frame 95 0.10 3 #
        [metrics_frame 90 0.08 4, \<lparr>landmarks = None, now = 4.5, sink_ok = True\<rparr>,
         metrics_frame 95 0.10 5]) (init_detector (squat_like_profile 2)))) + 1 \<and>
   rep_count (snd (run (squat_like_profile 2)
     ([metrics_frame 170 0.30 1, metrics_frame 170 0.30 2] @ metrics_frame 95 0.10 3 #
      [metrics_frame 90 0.08 4, \<lparr>landmarks = None, now = 4.5, sink_ok = True\<rparr>,
       metrics_frame 95 0.10 5] @ metrics_frame 170 0.30 6 #
      [metrics_frame 170 0.30 7, metrics_frame 165 0.28 8])
     (init_detector (squat_like_profile 2)))) = 1"
proof -
  let ?p = "squat_like_profile 2"
  let ?pre = "[metrics_frame 170 0.30 1, metrics_frame 170 0.30 2]"
  let ?mid = "[metrics_frame 90 0.08 4, \<lparr>landmarks = None, now = 4.5, sink_ok = True\<rparr>,
               metrics_frame 95 0.10 5]"
  let ?post = "[metrics_frame 170 0.30 7, metrics_frame 165 0.28 8]"
  have ready: "\<not> in_rep_position (init_detector ?p)" "returned_to_start (init_detector ?p)"
    by (simp_all add: init_detector_def)
  have pre: "\<forall>f \<in> set ?pre. \<not> in_position_frame ?p f"
    by (simp add: squat_defs Let_def)
  have entry: "in_position_frame ?p (metrics_frame 95 0.10 3)"
    by (simp add: squat_defs Let_def)
  have mid: "\<forall>f \<in> set ?mid. \<not> at_start_frame ?p f"
    by (simp add: squat_defs Let_def)
  have ret: "at_start_frame ?p (metrics_frame 170 0.30 6)"
    by (simp add: squat_defs Let_def)
  have post: "\<forall>f \<in> set ?post. \<not> in_position_frame ?p f"
    by (simp add: squat_defs Let_def)
  have no_raise: "fst (run ?p (?pre @ metrics_frame 95 0.10 3 # ?mid) (init_detector ?p)) = None"
    by (simp add: squat_defs step_defs)
  have cooldown: "cooldown_frames ?p \<le>
      frames_since_last_rep (snd (run ?p (?pre @ metrics_frame 95 0.10 3 # ?mid)
        (init_detector ?p))) + 1"
    by (simp add: squat_defs step_defs)
  have zero: "rep_count (init_detector ?p) = 0"
    by (simp add: init_detector_def)
  from no_double_counting [OF ready pre entry mid ret no_raise cooldown post]
    ready pre entry mid ret no_raise cooldown post zero
  show ?thesis by simp
qed

subsection \<open>The two flags are complementary\<close>

lemma flags_step:
  assumes "in_rep_position s \<longleftrightarrow> \<not> returned_to_start s"
  shows "in_rep_position (snd (on_joints_detected p f s)) \<longleftrightarrow>
         \<not> returned_to_start (snd (on_joints_detected p f s))"
  using assms
  by (auto simp: step_defs split: sum.splits option.splits prod.splits)

lemma flags_after_calls:
  assumes "in_rep_position s \<longleftrightarrow> \<not> returned_to_start s"
  shows "in_rep_position (after_calls p fs s) \<longleftrightarrow> \<not> returned_to_start (after_calls p fs s)"
  using assms
proof (induction fs arbitrary: s)
  case Nil
  then show ?case by simp
next
  case (Cons f fs)
  from Cons.IH [OF flags_step [OF Cons.prems]] show ?case by simp
qed

text \<open>The state in which a run ends is the state after the calls of a prefix of the
  sequence.\<close>

lemma run_is_after_calls: "\<exists>n. snd (run p fs s) = after_calls p (take n fs) s"
proof (induction fs arbitrary: s)
  case Nil
  then show ?case by simp
next
  case (Cons f fs)
  obtain e s' where st: "on_joints_detected p f s = (e, s')"
    by (cases "on_joints_detected p f s")
  show ?case
  proof (cases e)
    case None
    from Cons.IH [of s'] obtain n where "snd (run p fs s') = after_calls p (take n fs) s'"
      by blast
    with st None have "snd (run p (f # fs) s) = after_calls p (take (Suc n) (f # fs)) s"
      by simp
    then show ?thesis by blast
  next
    case (Some x)
    with st have "snd (run p (f # fs) s) = after_calls p (take (Suc 0) (f # fs)) s"
      by simp
    then show ?thesis by blast
  qed
qed

text \<open>
  Claim C9. In every state that a detector reaches from its construction by calls of
  \<open>on_joints_detected\<close>, on any frames and whether or not some of the calls raised,
  \<open>in_rep_position\<close> is true exactly when \<open>returned_to_start\<close> is false. Hence
  \<open>get_instruction\<close> never takes its middle branch: the return instruction is never
  produced. The same holds for the state in which a run that stops at the first
  exception ends.
\<close>

theorem complementary_flags_invariant:
  "(in_rep_position (after_calls p fs (init_detector p)) \<longleftrightarrow>
      \<not> returned_to_start (after_calls p fs (init_detector p))) \<and>
   get_instruction (after_calls p fs (init_detector p)) \<noteq> ReturnInstruction \<and>
   (in_rep_position (snd (run p fs (init_detector p))) \<longleftrightarrow>
      \<not> returned_to_start (snd (run p fs (init_detector p)))) \<and>
   get_instruction (snd (run p fs (init_detector p))) \<noteq> ReturnInstruction"
proof -
  have init: "in_rep_position (init_detector p) \<longleftrightarrow> \<not> returned_to_start (init_detector p)"
    by (simp add: init_detector_def)
  have all: "in_rep_position (after_calls p gs (init_detector p)) \<longleftrightarrow>
      \<not> returned_to_start (after_calls p gs (init_detector p))" for gs
    using flags_after_calls [OF init] .
  obtain n where n: "snd (run p fs (init_detector p)) = after_calls p (take n fs) (init_detector p)"
    using run_is_after_calls by blast
  from all [of fs] all [of "take n fs"] n show ?thesis
    by (simp add: get_instruction_def)
qed

text \<open>The instruction after each frame of the squat scenario, and after a frame
  without pose.\<close>

theorem complementary_flags_invariant_witness:
  "map get_instruction (run_states (squat_like_profile 2) scenario_frames
       (init_detector (squat_like_profile 2))) =
     [ReadyInstruction, ReadyInstruction, InPositionInstruction, InPositionInstruction,
      InPositionInstruction, ReadyInstruction] \<and>
   get_instruction (after_calls (squat_like_profile 2) scenario_frames
       (init_detector (squat_like_profile 2))) \<noteq> ReturnInstruction"
  using complementary_flags_invariant [of "squat_like_profile 2" scenario_frames]
  by (simp add: scenario_frames_def squat_defs step_defs get_instruction_def)

subsection \<open>The first return to the start is never suppressed\<close>

lemma first_rep_step:
  assumes "0 \<le> rep_count s"
    and "rep_count s = 0 \<longrightarrow> cooldown_frames p \<le> frames_since_last_rep s"
  shows "0 \<le> rep_count (snd (on_joints_detected p f s)) \<and>
         (rep_count (snd (on_joints_detected p f s)) = 0 \<longrightarrow>
            cooldown_frames p \<le> frames_since_last_rep (snd (on_joints_detected p f s)))"
  using assms
  by (auto simp: step_defs split: sum.splits option.splits prod.splits)

lemma first_rep_after_calls:
  assumes "0 \<le> rep_count s"
    and "rep_count s = 0 \<longrightarrow> cooldown_frames p \<le> frames_since_last_rep s"
  shows "0 \<le> rep_count (after_calls p fs s) \<and>
         (rep_count (after_calls p fs s) = 0 \<longrightarrow>
            cooldown_frames p \<le> frames_since_last_rep (after_calls p fs s))"
  using assms
proof (induction fs arbitrary: s)
  case Nil
  then show ?case by simp
next
  case (Cons f fs)
  from first_rep_step [OF Cons.prems, of f]
  have "0 \<le> rep_count (snd (on_joints_detected p f s))"
    and "rep_count (snd (on_joints_detected p f s)) = 0 \<longrightarrow>
      cooldown_frames p \<le> frames_since_last_rep (snd (on_joints_detected p f s))"
    by simp_all
  from Cons.IH [OF this] show ?case by simp
qed

lemma first_return_counts:
  assumes "rep_count (after_calls p fs (init_detector p)) = 0"
    and "in_rep_position (after_calls p fs (init_detector p))"
    and "at_start_frame p f"
  shows "rep_count (snd (on_joints_detected p f (after_calls p fs (init_detector p)))) = 1"
proof -
  have "cooldown_frames p \<le> frames_since_last_rep (after_calls p fs (init_detector p))"
    using first_rep_after_calls [of "init_detector p" p fs] assms(1)
    by (simp add: init_detector_def)
  then have "cooldown_frames p \<le> frames_since_last_rep (after_calls p fs (init_detector p)) + 1"
    by simp
  from return_step [OF assms(2,3) this] assms(1) show ?thesis by simp
qed

section \<open>Properties of the edge and threshold detectors\<close>

subsection \<open>The sign-crossing detector\<close>

lemmas crossing_defs = crossing_on_joints_detected_def get_joint_position_def Let_def

lemma crossing_first_frame:
  assumes "jc_last_relative_position h = None"
  shows "jc_crossed (snd (crossing_on_joints_detected l h)) = jc_crossed h"
  using assms by (auto simp: crossing_defs split: option.splits sum.splits)

lemma crossing_later_frame:
  assumes "jc_last_relative_position h = Some previous"
    and "get_joint_position l (jc_joint1_name h) = Some joint1_pos"
    and "get_joint_position l (jc_joint2_name h) = Some joint2_pos"
    and "component joint1_pos (jc_axis_idx h) = Inr c1"
    and "component joint2_pos (jc_axis_idx h) = Inr c2"
  shows "fst (crossing_on_joints_detected l h) = None \<and>
         jc_last_relative_position (snd (crossing_on_joints_detected l h)) = Some (c1 - c2) \<and>
         (if sgn previous \<noteq> sgn (c1 - c2) \<and>
             jc_cooldown_frames h \<le> jc_frames_since_last_event h + 1
          then jc_crossed (snd (crossing_on_joints_detected l h)) =
                 jc_crossed h @
                   [JointsCrossed
                      (if c1 - c2 > 0
                       then jc_joint1_name h @ '' crossed over '' @ jc_joint2_name h
                       else jc_joint2_name h @ '' crossed over '' @ jc_joint1_name h)
                      joint1_pos joint2_pos] \<and>
               jc_frames_since_last_event (snd (crossing_on_joints_detected l h)) = 0
          else jc_crossed (snd (crossing_on_joints_detected l h)) = jc_crossed h \<and>
               jc_frames_since_last_event (snd (crossing_on_joints_detected l h)) =
                 jc_frames_since_last_event h + 1)"
  using assms by (auto simp: crossing_defs)

lemma crossing_sequence:
  assumes "cooldown \<le> 2" and "joint1_name \<noteq> joint2_name"
  shows "\<exists>h. crossing_init joint1_name joint2_name ''x'' cooldown = Inr h \<and>
           map (\<lambda>n. length (jc_crossed (snd (crossing_run
                  (take n (map (signal_frame joint1_name joint2_name) [1, 1, -1, -1, 1])) h))))
             [1, 2, 3, 4, 5] = [0, 0, 1, 1, 2] \<and>
           fst (crossing_run (map (signal_frame joint1_name joint2_name) [1, 1, -1, -1, 1]) h)
             = None"
  using assms
  by (simp add: crossing_init_def axis_map_def signal_frame_def crossing_defs)

text \<open>
  Claim C6. On a call with no previous relative position stored (the first processed
  frame) no crossing is reported. On a call with a previous relative position stored and
  both joints detected, a crossing is reported exactly when the sign of the relative
  position of the frame differs from the sign of the stored one and
  \<open>frames_since_last_event\<close>, as the test reads it (after the increment that opens the
  call), is at least \<open>cooldown_frames\<close>; a call that reports resets
  \<open>frames_since_last_event\<close> to 0, and any other leaves it incremented. With a joint
  missing nothing is reported. For the signals +1, +1, -1, -1, +1 on the x axis and a
  cooldown of at most 2 frames (so that it has elapsed at each change of sign), a fresh
  handler has reported 0, 0, 1, 1 and 2 crossings after the five frames: exactly two,
  at the third and at the fifth frame.
\<close>

theorem crossing_detector_firing:
  "(jc_last_relative_position h = None \<longrightarrow>
      jc_crossed (snd (crossing_on_joints_detected l h)) = jc_crossed h) \<and>
   (jc_last_relative_position h = Some previous \<and>
    get_joint_position l (jc_joint1_name h) = Some joint1_pos \<and>
    get_joint_position l (jc_joint2_name h) = Some joint2_pos \<and>
    component joint1_pos (jc_axis_idx h) = Inr c1 \<and>
    component joint2_pos (jc_axis_idx h) = Inr c2 \<longrightarrow>
      fst (crossing_on_joints_detected l h) = None \<and>
      jc_last_relative_position (snd (crossing_on_joints_detected l h)) = Some (c1 - c2) \<and>
      (if sgn previous \<noteq> sgn (c1 - c2) \<and>
          jc_cooldown_frames h \<le> jc_frames_since_last_event h + 1
       then jc_crossed (snd (crossing_on_joints_detected l h)) =
              jc_crossed h @
                [JointsCrossed
                   (if c1 - c2 > 0
                    then jc_joint1_name h @ '' crossed over '' @ jc_joint2_name h
                    else jc_joint2_name h @ '' crossed over '' @ jc_joint1_name h)
                   joint1_pos joint2_pos] \<and>
            jc_frames_since_last_event (snd (crossing_on_joints_detected l h)) = 0
       else jc_crossed (snd (crossing_on_joints_detected l h)) = jc_crossed h \<and>
            jc_frames_since_last_event (snd (crossing_on_joints_detected l h)) =
              jc_frames_since_last_event h + 1)) \<and>
   (get_joint_position l (jc_joint1_name h) = None \<or>
    get_joint_position l (jc_joint2_name h) = None \<longrightarrow>
      crossing_on_joints_detected l h =
        (None, h\<lparr>jc_frames_since_last_event := jc_frames_since_last_event h + 1\<rparr>)) \<and>
   (cooldown \<le> 2 \<and> joint1_name \<noteq> joint2_name \<longrightarrow>
      (\<exists>h0. crossing_init joint1_name joint2_name ''x'' cooldown = Inr h0 \<and>
         map (\<lambda>n. length (jc_crossed (snd (crossing_run
                (take n (map (signal_frame joint1_name joint2_name) [1, 1, -1, -1, 1])) h0))))
           [1, 2, 3, 4, 5] = [0, 0, 1, 1, 2] \<and>
         fst (crossing_run (map (signal_frame joint1_name joint2_name) [1, 1, -1, -1, 1]) h0)
           = None))"
proof (intro conjI impI)
  assume "jc_last_relative_position h = None"
  then show "jc_crossed (snd (crossing_on_joints_detected l h)) = jc_crossed h"
    by (rule crossing_first_frame)
next
  assume a: "jc_last_relative_position h = Some previous \<and>
    get_joint_position l (jc_joint1_name h) = Some joint1_pos \<and>
    get_joint_position l (jc_joint2_name h) = Some joint2_pos \<and>
    component joint1_pos (jc_axis_idx h) = Inr c1 \<and>
    component joint2_pos (jc_axis_idx h) = Inr c2"
  note later = crossing_later_frame [of h previous l joint1_pos joint2_pos c1 c2]
  from a later show "fst (crossing_on_joints_detected l h) = None" by blast
  from a later
  show "jc_last_relative_position (snd (crossing_on_joints_detected l h)) = Some (c1 - c2)"
    by blast
  from a later
  show "if sgn previous \<noteq> sgn (c1 - c2) \<and>
          jc_cooldown_frames h \<le> jc_frames_since_last_event h + 1
       then jc_crossed (snd (crossing_on_joints_detected l h)) =
              jc_crossed h @
                [JointsCrossed
                   (if c1 - c2 > 0
                    then jc_joint1_name h @ '' crossed over '' @ jc_joint2_name h
                    else jc_joint2_name h @ '' crossed over '' @ jc_joint1_name h)
                   joint1_pos joint2_pos] \<and>
            jc_frames_since_last_event (snd (crossing_on_joints_detected l h)) = 0
       else jc_crossed (snd (crossing_on_joints_detected l h)) = jc_crossed h \<and>
            jc_frames_since_last_event (snd (crossing_on_joints_detected l h)) =
              jc_frames_since_last_event h + 1"
    by blast
next
  assume "get_joint_position l (jc_joint1_name h) = None \<or>
    get_joint_position l (jc_joint2_name h) = None"
  then show "crossing_on_joints_detected l h =
      (None, h\<lparr>jc_frames_since_last_event := jc_frames_since_last_event h + 1\<rparr>)"
    by (auto simp: crossing_defs split: option.splits)
next
  assume "cooldown \<le> 2 \<and> joint1_name \<noteq> joint2_name"
  then show "\<exists>h0. crossing_init joint1_name joint2_name ''x'' cooldown = Inr h0 \<and>
         map (\<lambda>n. length (jc_crossed (snd (crossing_run
                (take n (map (signal_frame joint1_name joint2_name) [1, 1, -1, -1, 1])) h0))))
           [1, 2, 3, 4, 5] = [0, 0, 1, 1, 2] \<and>
         fst (crossing_run (map (signal_frame joint1_name joint2_name) [1, 1, -1, -1, 1]) h0)
           = None"
    using crossing_sequence [of cooldown joint1_name joint2_name] by blast
qed

text \<open>
  The witness: the handler of the two wrists on the x axis with a cooldown of 2 frames.
  Its first frame reports nothing; after two frames with the left wrist to the right of
  the right wrist, a frame with the wrists the other way round reports that the right
  wrist crossed over the left one; a frame without pose only advances the counter.
\<close>

theorem crossing_detector_firing_witness:
  "crossing_init ''LEFT_WRIST'' ''RIGHT_WRIST'' ''x'' 2 = Inr wrists_crossing \<and>
   jc_last_relative_position wrists_crossing = None \<and>
   jc_crossed (snd (crossing_on_joints_detected
      (signal_frame ''LEFT_WRIST'' ''RIGHT_WRIST'' 1) wrists_crossing)) = [] \<and>
   jc_last_relative_position wrists_apart = Some 1 \<and>
   jc_crossed (snd (crossing_on_joints_detected
      (signal_frame ''LEFT_WRIST'' ''RIGHT_WRIST'' (- 1)) wrists_apart)) =
     [JointsCrossed ''RIGHT_WRIST crossed over LEFT_WRIST'' (- 1, 0, 0) (0, 0, 0)] \<and>
   jc_frames_since_last_event (snd (crossing_on_joints_detected
      (signal_frame ''LEFT_WRIST'' ''RIGHT_WRIST'' (- 1)) wrists_apart)) = 0 \<and>
   crossing_on_joints_detected Map.empty wrists_crossing =
     (None, wrists_crossing\<lparr>jc_frames_since_last_event := 3\<rparr>) \<and>
   map (\<lambda>n. length (jc_crossed (snd (crossing_run
          (take n (map (signal_frame ''LEFT_WRIST'' ''RIGHT_WRIST'') [1, 1, -1, -1, 1]))
          wrists_crossing))))
     [1, 2, 3, 4, 5] = [0, 0, 1, 1, 2]"
proof -
  let ?L = "''LEFT_WRIST''" and ?R = "''RIGHT_WRIST''"
  let ?l3 = "signal_frame ?L ?R (- 1)"
  have init: "crossing_init ?L ?R ''x'' 2 = Inr wrists_crossing"
    by (simp add: crossing_init_def axis_map_def wrists_crossing_def)
  have first: "jc_last_relative_position wrists_crossing = None"
    by (simp add: wrists_crossing_def)
  have h2: "jc_last_relative_position wrists_apart = Some 1"
    "jc_frames_since_last_event wrists_apart = 4" "jc_cooldown_frames wrists_apart = 2"
    "jc_crossed wrists_apart = []"
    "jc_joint1_name wrists_apart = ?L" "jc_joint2_name wrists_apart = ?R"
    "jc_axis_idx wrists_apart = 0"
    by (simp_all add: wrists_apart_def wrists_crossing_def signal_frame_def crossing_defs)
  have l3: "get_joint_position ?l3 (jc_joint1_name wrists_apart) = Some (- 1, 0, 0)"
    "get_joint_position ?l3 (jc_joint2_name wrists_apart) = Some (0, 0, 0)"
    "component (- 1, 0, 0) (jc_axis_idx wrists_apart) = Inr (- 1)"
    "component (0, 0, 0) (jc_axis_idx wrists_apart) = Inr 0"
    by (simp_all add: h2 signal_frame_def get_joint_position_def)
  have missing: "get_joint_position Map.empty (jc_joint1_name wrists_crossing) = None"
    by (simp add: get_joint_position_def)
  have fsle: "jc_frames_since_last_event wrists_crossing = 2"
    by (simp add: wrists_crossing_def)
  have empty: "jc_crossed wrists_crossing = []"
    by (simp add: wrists_crossing_def)
  note t1 = crossing_detector_firing
    [of wrists_crossing "signal_frame ?L ?R 1" 0 "(0, 0, 0)" "(0, 0, 0)" 0 0 2 ?L ?R]
  note t2 = crossing_detector_firing
    [of wrists_apart ?l3 1 "(- 1, 0, 0)" "(0, 0, 0)" "- 1" 0 2 ?L ?R]
  note t3 = crossing_detector_firing
    [of wrists_crossing Map.empty 0 "(0, 0, 0)" "(0, 0, 0)" 0 0 2 ?L ?R]
  have a: "jc_crossed (snd (crossing_on_joints_detected (signal_frame ?L ?R 1)
      wrists_crossing)) = []"
    using t1 first empty by simp
  have "if sgn (1::real) \<noteq> sgn (- 1 - 0) \<and>
          jc_cooldown_frames wrists_apart \<le> jc_frames_since_last_event wrists_apart + 1
       then jc_crossed (snd (crossing_on_joints_detected ?l3 wrists_apart)) =
              jc_crossed wrists_apart @
                [JointsCrossed
                   (if (- 1::real) - 0 > 0
                    then jc_joint1_name wrists_apart @ '' crossed over '' @
                      jc_joint2_name wrists_apart
                    else jc_joint2_name wrists_apart @ '' crossed over '' @
                      jc_joint1_name wrists_apart)
                   (- 1, 0, 0) (0, 0, 0)] \<and>
            jc_frames_since_last_event (snd (crossing_on_joints_detected ?l3 wrists_apart)) = 0
       else jc_crossed (snd (crossing_on_joints_detected ?l3 wrists_apart)) =
              jc_crossed wrists_apart \<and>
            jc_frames_since_last_event (snd (crossing_on_joints_detected ?l3 wrists_apart)) =
              jc_frames_since_last_event wrists_apart + 1"
    using t2 h2(1) l3 by blast
  then have b: "jc_crossed (snd (crossing_on_joints_detected ?l3 wrists_apart)) =
        [JointsCrossed ''RIGHT_WRIST crossed over LEFT_WRIST'' (- 1, 0, 0) (0, 0, 0)]"
    "jc_frames_since_last_event (snd (crossing_on_joints_detected ?l3 wrists_apart)) = 0"
    by (simp_all add: h2)
  have c: "crossing_on_joints_detected Map.empty wrists_crossing =
      (None, wrists_crossing\<lparr>jc_frames_since_last_event := 3\<rparr>)"
    using t3 missing fsle by simp
  have pre: "(2::int) \<le> 2 \<and> ?L \<noteq> ?R"
    by simp
  have "\<exists>h0. crossing_init ?L ?R ''x'' 2 = Inr h0 \<and>
         map (\<lambda>n. length (jc_crossed (snd (crossing_run
                (take n (map (signal_frame ?L ?R) [1, 1, -1, -1, 1])) h0))))
           [1, 2, 3, 4, 5] = [0, 0, 1, 1, 2] \<and>
         fst (crossing_run (map (signal_frame ?L ?R) [1, 1, -1, -1, 1]) h0) = None"
    using t1 [THEN conjunct2, THEN conjunct2, THEN conjunct2] pre by (rule mp)
  then obtain h0 where h0: "crossing_init ?L ?R ''x'' 2 = Inr h0"
    and seq: "map (\<lambda>n. length (jc_crossed (snd (crossing_run
          (take n (map (signal_frame ?L ?R) [1, 1, -1, -1, 1])) h0))))
        [1, 2, 3, 4, 5] = [0, 0, 1, 1, 2]"
    by (elim exE conjE)
  from h0 init have "h0 = wrists_crossing"
    by simp
  with seq have d: "map (\<lambda>n. length (jc_crossed (snd (crossing_run
          (take n (map (signal_frame ?L ?R) [1, 1, -1, -1, 1])) wrists_crossing))))
        [1, 2, 3, 4, 5] = [0, 0, 1, 1, 2]"
    by simp
  from init first a h2(1) b c d show ?thesis
    by blast
qed

subsection \<open>The proximity detector\<close>

lemmas proximity_defs = proximity_on_joints_detected_def get_joint_position_def Let_def

lemma vec_norm_on_x_axis: "vec_norm (d, 0, 0) = \<bar>d\<bar>"
  by simp

lemma proximity_step_params:
  "jp_joint1_name (proximity_on_joints_detected l h) = jp_joint1_name h \<and>
   jp_joint2_name (proximity_on_joints_detected l h) = jp_joint2_name h \<and>
   jp_threshold_distance (proximity_on_joints_detected l h) = jp_threshold_distance h \<and>
   jp_cooldown_frames (proximity_on_joints_detected l h) = jp_cooldown_frames h"
  by (simp add: proximity_defs split: option.splits)

lemma proximity_run_params:
  "jp_joint1_name (proximity_run ls h) = jp_joint1_name h \<and>
   jp_joint2_name (proximity_run ls h) = jp_joint2_name h \<and>
   jp_threshold_distance (proximity_run ls h) = jp_threshold_distance h \<and>
   jp_cooldown_frames (proximity_run ls h) = jp_cooldown_frames h"
  by (induction ls arbitrary: h) (simp_all add: proximity_step_params)

lemma joint_distance_cong:
  assumes "jp_joint1_name h' = jp_joint1_name h" and "jp_joint2_name h' = jp_joint2_name h"
  shows "joint_distance h' l = joint_distance h l"
  using assms by (simp add: joint_distance_def cong: option.case_cong)

lemma previous_close_cong:
  assumes "jp_joint1_name h' = jp_joint1_name h" and "jp_joint2_name h' = jp_joint2_name h"
    and "jp_threshold_distance h' = jp_threshold_distance h"
  shows "previous_close h' ls = previous_close h ls"
  using assms
  by (induction ls) (simp_all add: joint_distance_cong [of h' h] cong: option.case_cong)

text \<open>What one call does, in terms of the distance of the frame.\<close>

lemma proximity_step_skipped:
  assumes "joint_distance h l = None"
  shows "proximity_on_joints_detected l h =
           h\<lparr>jp_frames_since_last_event := jp_frames_since_last_event h + 1\<rparr>"
  using assms
  by (auto simp: proximity_defs joint_distance_def split: option.splits)

lemma proximity_step_processed:
  assumes "joint_distance h l = Some d"
  shows "jp_was_close (proximity_on_joints_detected l h) = (d < jp_threshold_distance h) \<and>
         (if d < jp_threshold_distance h \<and> \<not> jp_was_close h \<and>
             jp_cooldown_frames h \<le> jp_frames_since_last_event h + 1
          then length (jp_closed (proximity_on_joints_detected l h)) =
                 length (jp_closed h) + 1 \<and>
               jp_frames_since_last_event (proximity_on_joints_detected l h) = 0
          else jp_closed (proximity_on_joints_detected l h) = jp_closed h \<and>
               jp_frames_since_last_event (proximity_on_joints_detected l h) =
                 jp_frames_since_last_event h + 1)"
  using assms
  by (auto simp: proximity_defs joint_distance_def split: option.splits)

text \<open>The flag \<open>was_close\<close> is the closeness in the last processed frame, and the
  initial value when no frame has been processed.\<close>

lemma was_close_history:
  "jp_was_close (proximity_run ls h) =
     (case previous_close h ls of None \<Rightarrow> jp_was_close h | Some c \<Rightarrow> c)"
proof (induction ls arbitrary: h)
  case Nil
  then show ?case by simp
next
  case (Cons l ls)
  let ?h' = "proximity_on_joints_detected l h"
  have same: "previous_close ?h' ls = previous_close h ls"
    by (rule previous_close_cong) (simp_all add: proximity_step_params)
  show ?case
  proof (cases "previous_close h ls")
    case (Some c)
    with Cons.IH [of ?h'] same show ?thesis by simp
  next
    case None
    show ?thesis
    proof (cases "joint_distance h l")
      case dist: None
      with Cons.IH [of ?h'] same None proximity_step_skipped [OF dist]
      show ?thesis by simp
    next
      case dist: (Some d)
      with Cons.IH [of ?h'] same None proximity_step_processed [OF dist]
      show ?thesis by simp
    qed
  qed
qed

lemma proximity_sequence:
  assumes "joint1_name \<noteq> joint2_name"
  shows "map (\<lambda>n. length (jp_closed (proximity_run
            (take n (map (distance_frame joint1_name joint2_name) [0.3, 0.05, 0.04, 0.3]))
            (proximity_init joint1_name joint2_name 0.1 cooldown))))
           [1, 2, 3, 4] = [0, 1, 1, 1]"
  using assms
  by (simp add: proximity_init_def distance_frame_def proximity_defs vec_norm_on_x_axis
        del: vec_norm.simps)

text \<open>A call on a frame with both joints detected, after a fresh handler has processed
  any frames.\<close>

lemma proximity_fresh_processed:
  assumes "joint_distance (proximity_init j1 j2 threshold cooldown) l = Some d"
  shows "if d < threshold \<and>
            previous_close (proximity_init j1 j2 threshold cooldown) ls \<noteq> Some True \<and>
            cooldown \<le> jp_frames_since_last_event
              (proximity_run ls (proximity_init j1 j2 threshold cooldown)) + 1
         then length (jp_closed (proximity_on_joints_detected l
                  (proximity_run ls (proximity_init j1 j2 threshold cooldown)))) =
                length (jp_closed (proximity_run ls (proximity_init j1 j2 threshold cooldown))) + 1 \<and>
              jp_frames_since_last_event (proximity_on_joints_detected l
                  (proximity_run ls (proximity_init j1 j2 threshold cooldown))) = 0
         else jp_closed (proximity_on_joints_detected l
                  (proximity_run ls (proximity_init j1 j2 threshold cooldown))) =
                jp_closed (proximity_run ls (proximity_init j1 j2 threshold cooldown)) \<and>
              jp_frames_since_last_event (proximity_on_joints_detected l
                  (proximity_run ls (proximity_init j1 j2 threshold cooldown))) =
                jp_frames_since_last_event
                  (proximity_run ls (proximity_init j1 j2 threshold cooldown)) + 1"
proof -
  let ?fresh = "proximity_init j1 j2 threshold cooldown"
  let ?cur = "proximity_run ls ?fresh"
  have params: "jp_joint1_name ?cur = jp_joint1_name ?fresh"
    "jp_joint2_name ?cur = jp_joint2_name ?fresh"
    "jp_threshold_distance ?cur = threshold" "jp_cooldown_frames ?cur = cooldown"
    using proximity_run_params [where ls = ls and h = ?fresh] by (simp_all add: proximity_init_def)
  have "joint_distance ?cur l = joint_distance ?fresh l"
    by (rule joint_distance_cong) (simp_all add: params)
  with assms have dist: "joint_distance ?cur l = Some d"
    by simp
  have was: "jp_was_close ?cur \<longleftrightarrow> previous_close ?fresh ls = Some True"
    using was_close_history [where ls = ls and h = ?fresh]
    by (auto simp: proximity_init_def split: option.splits)
  from proximity_step_processed [OF dist] params(3,4) was show ?thesis
    by simp
qed

text \<open>
  Claim C7 as stated does not hold: the claim lets the event fire only on a frame whose
  previous processed frame had a distance of at least the threshold. A fresh handler
  (threshold 0.1, cooldown 30) that sees the joints at distance 0.05 in its very first
  frame fires, although no frame was processed before.
\<close>

theorem proximity_rising_edge_counterexample:
  "previous_close (proximity_init ''LEFT_WRIST'' ''RIGHT_WRIST'' 0.1 30) [] = None \<and>
   joint_distance (proximity_init ''LEFT_WRIST'' ''RIGHT_WRIST'' 0.1 30)
     (distance_frame ''LEFT_WRIST'' ''RIGHT_WRIST'' 0.05) = Some 0.05 \<and>
   jp_closed (proximity_on_joints_detected (distance_frame ''LEFT_WRIST'' ''RIGHT_WRIST'' 0.05)
     (proximity_init ''LEFT_WRIST'' ''RIGHT_WRIST'' 0.1 30)) =
     [JointsClose (0.05, 0, 0) (0, 0, 0) 0.05]"
  by (simp add: proximity_init_def distance_frame_def joint_distance_def proximity_defs
        vec_norm_on_x_axis del: vec_norm.simps)

text \<open>
  Claim C7, amended. Let a fresh handler process any frames \<open>ls\<close> and then a frame
  \<open>l\<close>. If a joint is missing in \<open>l\<close>, the call only increments
  \<open>frames_since_last_event\<close>. If both joints are detected, at distance \<open>d\<close>, the call
  fires (once, resetting \<open>frames_since_last_event\<close> to 0) exactly when \<open>d\<close> is below
  the threshold, the distance was not below the threshold in the previous processed frame
  (or no frame has been processed yet), and \<open>frames_since_last_event\<close>, as the test
  reads it, is at least \<open>cooldown_frames\<close>; it never fires while the distance merely
  stays below the threshold. For the distances 0.3, 0.05, 0.04, 0.3 against the threshold
  0.1 a fresh handler with any cooldown has fired 0, 1, 1 and 1 times after the four
  frames: exactly once, at the step from 0.3 to 0.05.
\<close>

theorem proximity_rising_edge_amended:
  "(joint_distance (proximity_init j1 j2 threshold cooldown) l = None \<longrightarrow>
      proximity_on_joints_detected l (proximity_run ls (proximity_init j1 j2 threshold cooldown)) =
        (proximity_run ls (proximity_init j1 j2 threshold cooldown))
          \<lparr>jp_frames_since_last_event :=
             jp_frames_since_last_event
               (proximity_run ls (proximity_init j1 j2 threshold cooldown)) + 1\<rparr>) \<and>
   (joint_distance (proximity_init j1 j2 threshold cooldown) l = Some d \<longrightarrow>
      (if d < threshold \<and>
          previous_close (proximity_init j1 j2 threshold cooldown) ls \<noteq> Some True \<and>
          cooldown \<le> jp_frames_since_last_event
            (proximity_run ls (proximity_init j1 j2 threshold cooldown)) + 1
       then length (jp_closed (proximity_on_joints_detected l
                (proximity_run ls (proximity_init j1 j2 threshold cooldown)))) =
              length (jp_closed (proximity_run ls (proximity_init j1 j2 threshold cooldown))) + 1 \<and>
            jp_frames_since_last_event (proximity_on_joints_detected l
                (proximity_run ls (proximity_init j1 j2 threshold cooldown))) = 0
       else jp_closed (proximity_on_joints_detected l
                (proximity_run ls (proximity_init j1 j2 threshold cooldown))) =
              jp_closed (proximity_run ls (proximity_init j1 j2 threshold cooldown)) \<and>
            jp_frames_since_last_event (proximity_on_joints_detected l
                (proximity_run ls (proximity_init j1 j2 threshold cooldown))) =
              jp_frames_since_last_event
                (proximity_run ls (proximity_init j1 j2 threshold cooldown)) + 1)) \<and>
   (j1 \<noteq> j2 \<longrightarrow>
      map (\<lambda>n. length (jp_closed (proximity_run
             (take n (map (distance_frame j1 j2) [0.3, 0.05, 0.04, 0.3]))
             (proximity_init j1 j2 0.1 cooldown))))
        [1, 2, 3, 4] = [0, 1, 1, 1])"
proof -
  let ?fresh = "proximity_init j1 j2 threshold cooldown"
  let ?cur = "proximity_run ls ?fresh"
  have "jp_joint1_name ?cur = jp_joint1_name ?fresh" "jp_joint2_name ?cur = jp_joint2_name ?fresh"
    using proximity_run_params [where ls = ls and h = ?fresh] by simp_all
  then have dist: "joint_distance ?cur l = joint_distance ?fresh l"
    by (rule joint_distance_cong)
  have skipped: "joint_distance ?fresh l = None \<longrightarrow>
      proximity_on_joints_detected l ?cur =
        ?cur\<lparr>jp_frames_since_last_event := jp_frames_since_last_event ?cur + 1\<rparr>"
    using proximity_step_skipped [where h = ?cur and l = l] dist by simp
  have processed: "joint_distance ?fresh l = Some d \<longrightarrow>
      (if d < threshold \<and> previous_close ?fresh ls \<noteq> Some True \<and>
          cooldown \<le> jp_frames_since_last_event ?cur + 1
       then length (jp_closed (proximity_on_joints_detected l ?cur)) = length (jp_closed ?cur) + 1 \<and>
            jp_frames_since_last_event (proximity_on_joints_detected l ?cur) = 0
       else jp_closed (proximity_on_joints_detected l ?cur) = jp_closed ?cur \<and>
            jp_frames_since_last_event (proximity_on_joints_detected l ?cur) =
              jp_frames_since_last_event ?cur + 1)"
    using proximity_fresh_processed [of j1 j2 threshold cooldown l d ls] by blast
  have sequence: "j1 \<noteq> j2 \<longrightarrow>
      map (\<lambda>n. length (jp_closed (proximity_run
             (take n (map (distance_frame j1 j2) [0.3, 0.05, 0.04, 0.3]))
             (proximity_init j1 j2 0.1 cooldown))))
        [1, 2, 3, 4] = [0, 1, 1, 1]"
    using proximity_sequence [of j1 j2 cooldown] by blast
  from skipped processed sequence show ?thesis
    by blast
qed

text \<open>
  The witness: the handler of the two wrists with threshold 0.1 and cooldown 30. A frame
  without pose only advances the counter; after a frame at distance 0.3 a frame at
  distance 0.05 fires; after that, a frame at distance 0.04 does not.
\<close>

theorem proximity_rising_edge_amended_witness:
  "joint_distance (proximity_init ''LEFT_WRIST'' ''RIGHT_WRIST'' 0.1 30) Map.empty = None \<and>
   proximity_on_joints_detected Map.empty
       (proximity_run [] (proximity_init ''LEFT_WRIST'' ''RIGHT_WRIST'' 0.1 30)) =
     (proximity_init ''LEFT_WRIST'' ''RIGHT_WRIST'' 0.1 30)\<lparr>jp_frames_since_last_event := 31\<rparr> \<and>
   joint_distance (proximity_init ''LEFT_WRIST'' ''RIGHT_WRIST'' 0.1 30)
       (distance_frame ''LEFT_WRIST'' ''RIGHT_WRIST'' 0.05) = Some 0.05 \<and>
   previous_close (proximity_init ''LEFT_WRIST'' ''RIGHT_WRIST'' 0.1 30)
       [distance_frame ''LEFT_WRIST'' ''RIGHT_WRIST'' 0.3] = Some False \<and>
   length (jp_closed (proximity_on_joints_detected
       (distance_frame ''LEFT_WRIST'' ''RIGHT_WRIST'' 0.05)
       (proximity_run [distance_frame ''LEFT_WRIST'' ''RIGHT_WRIST'' 0.3]
          (proximity_init ''LEFT_WRIST'' ''RIGHT_WRIST'' 0.1 30)))) = 1 \<and>
   joint_distance (proximity_init ''LEFT_WRIST'' ''RIGHT_WRIST'' 0.1 30)
       (distance_frame ''LEFT_WRIST'' ''RIGHT_WRIST'' 0.04) = Some 0.04 \<and>
   previous_close (proximity_init ''LEFT_WRIST'' ''RIGHT_WRIST'' 0.1 30)
       [distance_frame ''LEFT_WRIST'' ''RIGHT_WRIST'' 0.3,
        distance_frame ''LEFT_WRIST'' ''RIGHT_WRIST'' 0.05] = Some True \<and>
   length (jp_closed (proximity_on_joints_detected
       (distance_frame ''LEFT_WRIST'' ''RIGHT_WRIST'' 0.04)
       (proximity_run [distance_frame ''LEFT_WRIST'' ''RIGHT_WRIST'' 0.3,
                       distance_frame ''LEFT_WRIST'' ''RIGHT_WRIST'' 0.05]
          (proximity_init ''LEFT_WRIST'' ''RIGHT_WRIST'' 0.1 30)))) = 1 \<and>
   map (\<lambda>n. length (jp_closed (proximity_run
          (take n (map (distance_frame ''LEFT_WRIST'' ''RIGHT_WRIST'') [0.3, 0.05, 0.04, 0.3]))
          (proximity_init ''LEFT_WRIST'' ''RIGHT_WRIST'' 0.1 30))))
     [1, 2, 3, 4] = [0, 1, 1, 1]"
proof -
  let ?L = "''LEFT_WRIST''" and ?R = "''RIGHT_WRIST''"
  let ?fresh = "proximity_init ?L ?R 0.1 30"
  let ?far = "distance_frame ?L ?R 0.3"
  let ?near = "distance_frame ?L ?R 0.05"
  let ?nearer = "distance_frame ?L ?R 0.04"
  note ev = proximity_init_def distance_frame_def joint_distance_def proximity_defs
    vec_norm_on_x_axis
  have none: "joint_distance ?fresh Map.empty = None"
    by (simp add: ev)
  have near: "joint_distance ?fresh ?near = Some 0.05"
    by (simp add: ev del: vec_norm.simps)
  have nearer: "joint_distance ?fresh ?nearer = Some 0.04"
    by (simp add: ev del: vec_norm.simps)
  have prev1: "previous_close ?fresh [?far] = Some False"
    by (simp add: ev del: vec_norm.simps)
  have prev2: "previous_close ?fresh [?far, ?near] = Some True"
    by (simp add: ev del: vec_norm.simps)
  have st1: "jp_frames_since_last_event (proximity_run [?far] ?fresh) = 31"
    "jp_closed (proximity_run [?far] ?fresh) = []"
    by (simp_all add: ev del: vec_norm.simps)
  have st2: "length (jp_closed (proximity_run [?far, ?near] ?fresh)) = 1"
    by (simp add: ev del: vec_norm.simps)
  note t0 = proximity_rising_edge_amended
    [where ?j1.0 = ?L and ?j2.0 = ?R and threshold = "0.1" and cooldown = 30 and ls = "[]"
       and l = Map.empty and d = 0]
  note t1 = proximity_rising_edge_amended
    [where ?j1.0 = ?L and ?j2.0 = ?R and threshold = "0.1" and cooldown = 30 and ls = "[?far]"
       and l = ?near and d = "0.05"]
  note t2 = proximity_rising_edge_amended
    [where ?j1.0 = ?L and ?j2.0 = ?R and threshold = "0.1" and cooldown = 30
       and ls = "[?far, ?near]" and l = ?nearer and d = "0.04"]
  have a: "proximity_on_joints_detected Map.empty (proximity_run [] ?fresh) =
      ?fresh\<lparr>jp_frames_since_last_event := 31\<rparr>"
    using t0 [THEN conjunct1] none by (simp add: proximity_init_def)
  have b: "length (jp_closed (proximity_on_joints_detected ?near
      (proximity_run [?far] ?fresh))) = 1"
    using t1 [THEN conjunct2, THEN conjunct1] near prev1 st1 by simp
  have c: "length (jp_closed (proximity_on_joints_detected ?nearer
      (proximity_run [?far, ?near] ?fresh))) = 1"
    using t2 [THEN conjunct2, THEN conjunct1] nearer prev2 st2 by simp
  have "?L \<noteq> ?R"
    by simp
  with t0 [THEN conjunct2, THEN conjunct2]
  have d: "map (\<lambda>n. length (jp_closed (proximity_run
          (take n (map (distance_frame ?L ?R) [0.3, 0.05, 0.04, 0.3])) ?fresh)))
     [1, 2, 3, 4] = [0, 1, 1, 1]"
    by (rule mp)
  from none a near prev1 b nearer prev2 c d show ?thesis
    by blast
qed

subsection \<open>The first event is exempt from the cooldown\<close>

text \<open>As long as a handler has reported nothing, its counter has never been reset: it
  is at least the cooldown it started with.\<close>

lemma crossing_step_cooldown:
  "jc_cooldown_frames (snd (crossing_on_joints_detected l h)) = jc_cooldown_frames h"
  by (auto simp: crossing_defs split: option.splits sum.splits)

lemma crossing_step_grows:
  "jc_crossed (snd (crossing_on_joints_detected l h)) = [] \<Longrightarrow> jc_crossed h = []"
  by (auto simp: crossing_defs split: option.splits sum.splits if_splits)

lemma crossing_step_quiet:
  assumes "jc_crossed (snd (crossing_on_joints_detected l h)) = []"
    and "jc_cooldown_frames h \<le> jc_frames_since_last_event h"
  shows "jc_cooldown_frames h \<le> jc_frames_since_last_event (snd (crossing_on_joints_detected l h))"
  using assms
  by (auto simp: crossing_defs split: option.splits sum.splits if_splits)

lemma crossing_run_grows:
  "jc_crossed (snd (crossing_run ls h)) = [] \<Longrightarrow> jc_crossed h = []"
proof (induction ls arbitrary: h)
  case Nil
  then show ?case by simp
next
  case (Cons l ls)
  obtain e h' where st: "crossing_on_joints_detected l h = (e, h')"
    by (cases "crossing_on_joints_detected l h")
  have "jc_crossed h' = []"
  proof (cases e)
    case None
    with Cons.prems st have "jc_crossed (snd (crossing_run ls h')) = []" by simp
    then show ?thesis by (rule Cons.IH)
  next
    case (Some x)
    with Cons.prems st show ?thesis by simp
  qed
  with crossing_step_grows [of l h] st show ?case by simp
qed

lemma crossing_run_quiet:
  assumes "jc_crossed (snd (crossing_run ls h)) = []"
    and "jc_cooldown_frames h \<le> jc_frames_since_last_event h"
  shows "jc_cooldown_frames (snd (crossing_run ls h)) = jc_cooldown_frames h \<and>
         jc_cooldown_frames h \<le> jc_frames_since_last_event (snd (crossing_run ls h))"
  using assms
proof (induction ls arbitrary: h)
  case Nil
  then show ?case by simp
next
  case (Cons l ls)
  obtain e h' where st: "crossing_on_joints_detected l h = (e, h')"
    by (cases "crossing_on_joints_detected l h")
  have cd: "jc_cooldown_frames h' = jc_cooldown_frames h"
    using crossing_step_cooldown [of l h] st by simp
  show ?case
  proof (cases e)
    case None
    with st Cons.prems(1) have quiet: "jc_crossed (snd (crossing_run ls h')) = []"
      by simp
    then have "jc_crossed h' = []"
      by (rule crossing_run_grows)
    with crossing_step_quiet [of l h] Cons.prems(2) st cd
    have "jc_cooldown_frames h' \<le> jc_frames_since_last_event h'"
      by simp
    from Cons.IH [OF quiet this] cd st None show ?thesis by simp
  next
    case (Some x)
    with st Cons.prems(1) have "jc_crossed h' = []" by simp
    with crossing_step_quiet [of l h] Cons.prems(2) st cd Some show ?thesis by simp
  qed
qed

lemma crossing_first_event:
  assumes init: "crossing_init j1 j2 axis cooldown = Inr h0"
    and quiet: "jc_crossed (snd (crossing_run ls h0)) = []"
    and prev: "jc_last_relative_position (snd (crossing_run ls h0)) = Some previous"
    and j1: "get_joint_position l (jc_joint1_name (snd (crossing_run ls h0))) = Some joint1_pos"
    and j2: "get_joint_position l (jc_joint2_name (snd (crossing_run ls h0))) = Some joint2_pos"
    and c1: "component joint1_pos (jc_axis_idx (snd (crossing_run ls h0))) = Inr c1"
    and c2: "component joint2_pos (jc_axis_idx (snd (crossing_run ls h0))) = Inr c2"
    and change: "sgn previous \<noteq> sgn (c1 - c2)"
  shows "length (jc_crossed (snd (crossing_on_joints_detected l (snd (crossing_run ls h0))))) = 1"
proof -
  from init have "jc_cooldown_frames h0 \<le> jc_frames_since_last_event h0"
    by (auto simp: crossing_init_def split: option.splits)
  from crossing_run_quiet [OF quiet this]
  have "jc_cooldown_frames (snd (crossing_run ls h0)) \<le>
      jc_frames_since_last_event (snd (crossing_run ls h0)) + 1"
    by simp
  with crossing_later_frame [OF prev j1 j2 c1 c2] change quiet show ?thesis
    by simp
qed

lemma proximity_step_grows:
  "jp_closed (proximity_on_joints_detected l h) = [] \<Longrightarrow> jp_closed h = []"
  by (auto simp: proximity_defs split: option.splits if_splits)

lemma proximity_step_quiet:
  assumes "jp_closed (proximity_on_joints_detected l h) = []"
    and "jp_cooldown_frames h \<le> jp_frames_since_last_event h"
  shows "jp_cooldown_frames h \<le> jp_frames_since_last_event (proximity_on_joints_detected l h)"
  using assms
  by (auto simp: proximity_defs split: option.splits if_splits)

lemma proximity_run_grows:
  "jp_closed (proximity_run ls h) = [] \<Longrightarrow> jp_closed h = []"
proof (induction ls arbitrary: h)
  case Nil
  then show ?case by simp
next
  case (Cons l ls)
  from Cons.prems have "jp_closed (proximity_run ls (proximity_on_joints_detected l h)) = []"
    by simp
  then have "jp_closed (proximity_on_joints_detected l h) = []"
    by (rule Cons.IH)
  then show ?case
    by (rule proximity_step_grows)
qed

lemma proximity_run_quiet:
  assumes "jp_closed (proximity_run ls h) = []"
    and "jp_cooldown_frames h \<le> jp_frames_since_last_event h"
  shows "jp_cooldown_frames h \<le> jp_frames_since_last_event (proximity_run ls h)"
  using assms
proof (induction ls arbitrary: h)
  case Nil
  then show ?case by simp
next
  case (Cons l ls)
  let ?h' = "proximity_on_joints_detected l h"
  from Cons.prems(1) have quiet: "jp_closed (proximity_run ls ?h') = []"
    by simp
  then have "jp_closed ?h' = []"
    by (rule proximity_run_grows)
  from proximity_step_quiet [OF this Cons.prems(2)] proximity_step_params [of l h]
  have "jp_cooldown_frames ?h' \<le> jp_frames_since_last_event ?h'"
    by simp
  from Cons.IH [OF quiet this] proximity_step_params [of l h] show ?case
    by simp
qed

lemma proximity_first_event:
  assumes quiet: "jp_closed (proximity_run ls (proximity_init j1 j2 threshold cooldown)) = []"
    and dist: "joint_distance (proximity_init j1 j2 threshold cooldown) l = Some d"
    and close: "d < threshold"
    and edge: "previous_close (proximity_init j1 j2 threshold cooldown) ls \<noteq> Some True"
  shows "length (jp_closed (proximity_on_joints_detected l
           (proximity_run ls (proximity_init j1 j2 threshold cooldown)))) = 1"
proof -
  let ?fresh = "proximity_init j1 j2 threshold cooldown"
  have "jp_cooldown_frames ?fresh \<le> jp_frames_since_last_event ?fresh"
    by (simp add: proximity_init_def)
  from proximity_run_quiet [OF quiet this]
  have "cooldown \<le> jp_frames_since_last_event (proximity_run ls ?fresh) + 1"
    by (simp add: proximity_init_def)
  with proximity_fresh_processed [OF dist, of ls] close edge quiet
  show ?thesis by simp
qed

lemmas angle_defs = angle_on_joints_detected_def threshold_reached_def get_joint_position_def
  Let_def

lemma angle_step_params:
  "ja_cooldown_frames (angle_on_joints_detected l h) = ja_cooldown_frames h \<and>
   ja_joint1_name (angle_on_joints_detected l h) = ja_joint1_name h \<and>
   ja_joint2_name (angle_on_joints_detected l h) = ja_joint2_name h \<and>
   ja_joint3_name (angle_on_joints_detected l h) = ja_joint3_name h \<and>
   ja_angle_threshold (angle_on_joints_detected l h) = ja_angle_threshold h \<and>
   ja_comparison (angle_on_joints_detected l h) = ja_comparison h"
  by (simp add: angle_defs split: option.splits)

lemma angle_step_grows:
  "ja_fired (angle_on_joints_detected l h) = [] \<Longrightarrow> ja_fired h = []"
  by (auto simp: angle_defs split: option.splits if_splits)

lemma angle_step_quiet:
  assumes "ja_fired (angle_on_joints_detected l h) = []"
    and "ja_cooldown_frames h \<le> ja_frames_since_last_event h"
  shows "ja_cooldown_frames h \<le> ja_frames_since_last_event (angle_on_joints_detected l h)"
  using assms
  by (auto simp: angle_defs split: option.splits if_splits)

lemma angle_step_processed:
  assumes "threshold_reached h l = Some c"
  shows "ja_threshold_crossed (angle_on_joints_detected l h) = c \<and>
         (if c \<and> \<not> ja_threshold_crossed h \<and>
             ja_cooldown_frames h \<le> ja_frames_since_last_event h + 1
          then length (ja_fired (angle_on_joints_detected l h)) = length (ja_fired h) + 1 \<and>
               ja_frames_since_last_event (angle_on_joints_detected l h) = 0
          else ja_fired (angle_on_joints_detected l h) = ja_fired h \<and>
               ja_frames_since_last_event (angle_on_joints_detected l h) =
                 ja_frames_since_last_event h + 1)"
  using assms
  by (auto simp: angle_defs split: option.splits)

lemma angle_run_grows:
  "ja_fired (angle_run ls h) = [] \<Longrightarrow> ja_fired h = []"
proof (induction ls arbitrary: h)
  case Nil
  then show ?case by simp
next
  case (Cons l ls)
  from Cons.prems have "ja_fired (angle_run ls (angle_on_joints_detected l h)) = []"
    by simp
  then have "ja_fired (angle_on_joints_detected l h) = []"
    by (rule Cons.IH)
  then show ?case
    by (rule angle_step_grows)
qed

lemma angle_run_quiet:
  assumes "ja_fired (angle_run ls h) = []"
    and "ja_cooldown_frames h \<le> ja_frames_since_last_event h"
  shows "ja_cooldown_frames (angle_run ls h) = ja_cooldown_frames h \<and>
         ja_cooldown_frames h \<le> ja_frames_since_last_event (angle_run ls h)"
  using assms
proof (induction ls arbitrary: h)
  case Nil
  then show ?case by simp
next
  case (Cons l ls)
  let ?h' = "angle_on_joints_detected l h"
  from Cons.prems(1) have quiet: "ja_fired (angle_run ls ?h') = []"
    by simp
  then have "ja_fired ?h' = []"
    by (rule angle_run_grows)
  from angle_step_quiet [OF this Cons.prems(2)] angle_step_params [of l h]
  have "ja_cooldown_frames ?h' \<le> ja_frames_since_last_event ?h'"
    by simp
  from Cons.IH [OF quiet this] angle_step_params [of l h] show ?case
    by simp
qed

lemma angle_first_event:
  assumes quiet: "ja_fired (angle_run ls (angle_init j1 j2 j3 threshold comparison cooldown)) = []"
    and reached: "threshold_reached
        (angle_run ls (angle_init j1 j2 j3 threshold comparison cooldown)) l = Some True"
    and edge: "\<not> ja_threshold_crossed
        (angle_run ls (angle_init j1 j2 j3 threshold comparison cooldown))"
  shows "length (ja_fired (angle_on_joints_detected l
           (angle_run ls (angle_init j1 j2 j3 threshold comparison cooldown)))) = 1"
proof -
  let ?fresh = "angle_init j1 j2 j3 threshold comparison cooldown"
  have "ja_cooldown_frames ?fresh \<le> ja_frames_since_last_event ?fresh"
    by (simp add: angle_init_def)
  from angle_run_quiet [OF quiet this]
  have "ja_cooldown_frames (angle_run ls ?fresh) \<le>
      ja_frames_since_last_event (angle_run ls ?fresh) + 1"
    by simp
  with angle_step_processed [OF reached] edge quiet show ?thesis
    by simp
qed

lemma right_angle: "calculate_angle (1, 0, 0) (0, 0, 0) (0, 1, 0) = Some 90"
  by (simp add: calculate_angle_def)

text \<open>
  Claim C10. Each of the four constructors sets the debounce counter to the cooldown:
  \<open>frames_since_last_rep\<close> of a detector, \<open>frames_since_last_event\<close> of a crossing,
  a proximity and an angle handler. Hence the cooldown test cannot fail before the first
  event. A detector that has counted no repetition yet, whatever calls it has seen,
  counts its first return to the start. A crossing handler that has reported nothing
  reports the first change of sign it meets; a proximity handler that has reported
  nothing fires on the first frame in which the joints are close and were not close in
  the previous processed frame (if any); an angle handler that has fired nothing fires on
  the first frame in which the threshold condition holds and did not hold before.
\<close>

theorem first_event_cooldown_exemption:
  "frames_since_last_rep (init_detector p) = cooldown_frames p \<and>
   (rep_count (after_calls p fs (init_detector p)) = 0 \<and>
    in_rep_position (after_calls p fs (init_detector p)) \<and>
    at_start_frame p f \<longrightarrow>
      rep_count (snd (on_joints_detected p f (after_calls p fs (init_detector p)))) = 1) \<and>
   (crossing_init cj1 cj2 axis ccd = Inr ch \<longrightarrow>
      jc_frames_since_last_event ch = ccd \<and>
      jc_cooldown_frames ch = ccd \<and>
      (jc_crossed (snd (crossing_run cls ch)) = [] \<and>
       jc_last_relative_position (snd (crossing_run cls ch)) = Some previous \<and>
       get_joint_position cl (jc_joint1_name (snd (crossing_run cls ch))) = Some joint1_pos \<and>
       get_joint_position cl (jc_joint2_name (snd (crossing_run cls ch))) = Some joint2_pos \<and>
       component joint1_pos (jc_axis_idx (snd (crossing_run cls ch))) = Inr c1 \<and>
       component joint2_pos (jc_axis_idx (snd (crossing_run cls ch))) = Inr c2 \<and>
       sgn previous \<noteq> sgn (c1 - c2) \<longrightarrow>
         length (jc_crossed (snd (crossing_on_joints_detected cl
           (snd (crossing_run cls ch))))) = 1)) \<and>
   jp_frames_since_last_event (proximity_init pj1 pj2 threshold pcd) = pcd \<and>
   jp_cooldown_frames (proximity_init pj1 pj2 threshold pcd) = pcd \<and>
   (jp_closed (proximity_run pls (proximity_init pj1 pj2 threshold pcd)) = [] \<and>
    joint_distance (proximity_init pj1 pj2 threshold pcd) pl = Some d \<and>
    d < threshold \<and>
    previous_close (proximity_init pj1 pj2 threshold pcd) pls \<noteq> Some True \<longrightarrow>
      length (jp_closed (proximity_on_joints_detected pl
        (proximity_run pls (proximity_init pj1 pj2 threshold pcd)))) = 1) \<and>
   ja_frames_since_last_event (angle_init aj1 aj2 aj3 angle_threshold comparison acd) = acd \<and>
   ja_cooldown_frames (angle_init aj1 aj2 aj3 angle_threshold comparison acd) = acd \<and>
   (ja_fired (angle_run als (angle_init aj1 aj2 aj3 angle_threshold comparison acd)) = [] \<and>
    threshold_reached (angle_run als (angle_init aj1 aj2 aj3 angle_threshold comparison acd)) al
      = Some True \<and>
    \<not> ja_threshold_crossed
        (angle_run als (angle_init aj1 aj2 aj3 angle_threshold comparison acd)) \<longrightarrow>
      length (ja_fired (angle_on_joints_detected al
        (angle_run als (angle_init aj1 aj2 aj3 angle_threshold comparison acd)))) = 1)"
proof -
  have detector: "frames_since_last_rep (init_detector p) = cooldown_frames p"
    by (simp add: init_detector_def)
  have first_rep: "rep_count (after_calls p fs (init_detector p)) = 0 \<and>
      in_rep_position (after_calls p fs (init_detector p)) \<and> at_start_frame p f \<longrightarrow>
      rep_count (snd (on_joints_detected p f (after_calls p fs (init_detector p)))) = 1"
    using first_return_counts [of p fs f] by blast
  have crossing: "crossing_init cj1 cj2 axis ccd = Inr ch \<longrightarrow>
      jc_frames_since_last_event ch = ccd \<and>
      jc_cooldown_frames ch = ccd \<and>
      (jc_crossed (snd (crossing_run cls ch)) = [] \<and>
       jc_last_relative_position (snd (crossing_run cls ch)) = Some previous \<and>
       get_joint_position cl (jc_joint1_name (snd (crossing_run cls ch))) = Some joint1_pos \<and>
       get_joint_position cl (jc_joint2_name (snd (crossing_run cls ch))) = Some joint2_pos \<and>
       component joint1_pos (jc_axis_idx (snd (crossing_run cls ch))) = Inr c1 \<and>
       component joint2_pos (jc_axis_idx (snd (crossing_run cls ch))) = Inr c2 \<and>
       sgn previous \<noteq> sgn (c1 - c2) \<longrightarrow>
         length (jc_crossed (snd (crossing_on_joints_detected cl
           (snd (crossing_run cls ch))))) = 1)"
  proof (intro impI conjI)
    assume init: "crossing_init cj1 cj2 axis ccd = Inr ch"
    then show "jc_frames_since_last_event ch = ccd" "jc_cooldown_frames ch = ccd"
      by (auto simp: crossing_init_def split: option.splits)
    assume "jc_crossed (snd (crossing_run cls ch)) = [] \<and>
       jc_last_relative_position (snd (crossing_run cls ch)) = Some previous \<and>
       get_joint_position cl (jc_joint1_name (snd (crossing_run cls ch))) = Some joint1_pos \<and>
       get_joint_position cl (jc_joint2_name (snd (crossing_run cls ch))) = Some joint2_pos \<and>
       component joint1_pos (jc_axis_idx (snd (crossing_run cls ch))) = Inr c1 \<and>
       component joint2_pos (jc_axis_idx (snd (crossing_run cls ch))) = Inr c2 \<and>
       sgn previous \<noteq> sgn (c1 - c2)"
    with crossing_first_event [OF init, of cls previous cl joint1_pos joint2_pos c1 c2]
    show "length (jc_crossed (snd (crossing_on_joints_detected cl
           (snd (crossing_run cls ch))))) = 1"
      by blast
  qed
  have proximity: "jp_frames_since_last_event (proximity_init pj1 pj2 threshold pcd) = pcd"
    "jp_cooldown_frames (proximity_init pj1 pj2 threshold pcd) = pcd"
    by (simp_all add: proximity_init_def)
  have first_close: "jp_closed (proximity_run pls (proximity_init pj1 pj2 threshold pcd)) = [] \<and>
      joint_distance (proximity_init pj1 pj2 threshold pcd) pl = Some d \<and>
      d < threshold \<and>
      previous_close (proximity_init pj1 pj2 threshold pcd) pls \<noteq> Some True \<longrightarrow>
      length (jp_closed (proximity_on_joints_detected pl
        (proximity_run pls (proximity_init pj1 pj2 threshold pcd)))) = 1"
    using proximity_first_event [of pls pj1 pj2 threshold pcd pl d] by blast
  have angle: "ja_frames_since_last_event
        (angle_init aj1 aj2 aj3 angle_threshold comparison acd) = acd"
    "ja_cooldown_frames (angle_init aj1 aj2 aj3 angle_threshold comparison acd) = acd"
    by (simp_all add: angle_init_def)
  have first_angle:
    "ja_fired (angle_run als (angle_init aj1 aj2 aj3 angle_threshold comparison acd)) = [] \<and>
     threshold_reached (angle_run als (angle_init aj1 aj2 aj3 angle_threshold comparison acd)) al
       = Some True \<and>
     \<not> ja_threshold_crossed
        (angle_run als (angle_init aj1 aj2 aj3 angle_threshold comparison acd)) \<longrightarrow>
     length (ja_fired (angle_on_joints_detected al
        (angle_run als (angle_init aj1 aj2 aj3 angle_threshold comparison acd)))) = 1"
    using angle_first_event [of als aj1 aj2 aj3 angle_threshold comparison acd al] by blast
  from detector first_rep crossing proximity first_close angle first_angle show ?thesis
    by blast
qed

text \<open>
  The witness, with the cooldown of 30 frames throughout: the squat scenario returns to
  the start at its sixth frame and is counted; the wrists cross at the second frame of a
  fresh crossing handler and the crossing is reported; a fresh proximity handler fires on
  a first frame at distance 0.05 (threshold 0.1); a fresh angle handler (less than 100
  degrees) fires on a first frame with the arm bent at a right angle.
\<close>

theorem first_event_cooldown_exemption_witness:
  "rep_count (after_calls (squat_like_profile 30) (take 5 scenario_frames)
      (init_detector (squat_like_profile 30))) = 0 \<and>
   in_rep_position (after_calls (squat_like_profile 30) (take 5 scenario_frames)
      (init_detector (squat_like_profile 30))) \<and>
   at_start_frame (squat_like_profile 30) (metrics_frame 170 0.30 6) \<and>
   rep_count (snd (on_joints_detected (squat_like_profile 30) (metrics_frame 170 0.30 6)
      (after_calls (squat_like_profile 30) (take 5 scenario_frames)
         (init_detector (squat_like_profile 30))))) = 1 \<and>
   crossing_init ''LEFT_WRIST'' ''RIGHT_WRIST'' ''x'' 30 =
     Inr (wrists_crossing\<lparr>jc_cooldown_frames := 30, jc_frames_since_last_event := 30\<rparr>) \<and>
   jc_crossed (snd (crossing_run [signal_frame ''LEFT_WRIST'' ''RIGHT_WRIST'' 1]
      (wrists_crossing\<lparr>jc_cooldown_frames := 30, jc_frames_since_last_event := 30\<rparr>))) = [] \<and>
   length (jc_crossed (snd (crossing_on_joints_detected
      (signal_frame ''LEFT_WRIST'' ''RIGHT_WRIST'' (- 1))
      (snd (crossing_run [signal_frame ''LEFT_WRIST'' ''RIGHT_WRIST'' 1]
         (wrists_crossing\<lparr>jc_cooldown_frames := 30,
            jc_frames_since_last_event := 30\<rparr>)))))) = 1 \<and>
   joint_distance (proximity_init ''LEFT_WRIST'' ''RIGHT_WRIST'' 0.1 30)
     (distance_frame ''LEFT_WRIST'' ''RIGHT_WRIST'' 0.05) = Some 0.05 \<and>
   length (jp_closed (proximity_on_joints_detected
      (distance_frame ''LEFT_WRIST'' ''RIGHT_WRIST'' 0.05)
      (proximity_run [] (proximity_init ''LEFT_WRIST'' ''RIGHT_WRIST'' 0.1 30)))) = 1 \<and>
   threshold_reached
     (angle_run [] (angle_init ''LEFT_SHOULDER'' ''LEFT_ELBOW'' ''LEFT_WRIST'' 100 ''less'' 30))
     right_angle_frame = Some True \<and>
   length (ja_fired (angle_on_joints_detected right_angle_frame
      (angle_run [] (angle_init ''LEFT_SHOULDER'' ''LEFT_ELBOW'' ''LEFT_WRIST'' 100
         ''less'' 30)))) = 1"
proof -
  let ?L = "''LEFT_WRIST''" and ?R = "''RIGHT_WRIST''"
  let ?p = "squat_like_profile 30"
  let ?s = "after_calls ?p (take 5 scenario_frames) (init_detector ?p)"
  let ?f = "metrics_frame 170 0.30 6"
  let ?ch = "wrists_crossing\<lparr>jc_cooldown_frames := 30, jc_frames_since_last_event := 30\<rparr>"
  let ?c1 = "snd (crossing_run [signal_frame ?L ?R 1] ?ch)"
  let ?cl = "signal_frame ?L ?R (- 1)"
  let ?ph = "proximity_init ?L ?R 0.1 30"
  let ?pl = "distance_frame ?L ?R 0.05"
  let ?ah = "angle_init ''LEFT_SHOULDER'' ''LEFT_ELBOW'' ''LEFT_WRIST'' 100 ''less'' 30"
  note t = first_event_cooldown_exemption
    [where p = ?p and fs = "take 5 scenario_frames" and f = ?f
       and ?cj1.0 = ?L and ?cj2.0 = ?R and axis = "''x''" and ccd = 30 and ch = ?ch
       and cls = "[signal_frame ?L ?R 1]" and previous = 1 and cl = ?cl
       and ?joint1_pos.0 = "(- 1, 0, 0)" and ?joint2_pos.0 = "(0, 0, 0)"
       and ?c1.0 = "- 1" and ?c2.0 = 0
       and ?pj1.0 = ?L and ?pj2.0 = ?R and threshold = "0.1" and pcd = 30
       and pls = "[]" and pl = ?pl and d = "0.05"
       and ?aj1.0 = "''LEFT_SHOULDER''" and ?aj2.0 = "''LEFT_ELBOW''"
       and ?aj3.0 = "''LEFT_WRIST''" and angle_threshold = 100
       and comparison = "''less''" and acd = 30 and als = "[]" and al = right_angle_frame]
  have s: "rep_count ?s = 0" "in_rep_position ?s"
    by (simp_all add: scenario_frames_def squat_defs step_defs)
  have f: "at_start_frame ?p ?f"
    by (simp add: squat_defs Let_def)
  have counted: "rep_count (snd (on_joints_detected ?p ?f ?s)) = 1"
    using t [THEN conjunct2, THEN conjunct1] s f by blast
  have init: "crossing_init ?L ?R ''x'' 30 = Inr ?ch"
    by (simp add: crossing_init_def axis_map_def wrists_crossing_def)
  have c: "jc_crossed ?c1 = []" "jc_last_relative_position ?c1 = Some 1"
    "get_joint_position ?cl (jc_joint1_name ?c1) = Some (- 1, 0, 0)"
    "get_joint_position ?cl (jc_joint2_name ?c1) = Some (0, 0, 0)"
    "component (- 1, 0, 0) (jc_axis_idx ?c1) = Inr (- 1)"
    "component (0, 0, 0) (jc_axis_idx ?c1) = Inr 0"
    by (simp_all add: wrists_crossing_def signal_frame_def crossing_defs)
  have change: "sgn (1::real) \<noteq> sgn (- 1 - 0)"
    by simp
  have crossed: "length (jc_crossed (snd (crossing_on_joints_detected ?cl ?c1))) = 1"
    using t [THEN conjunct2, THEN conjunct2, THEN conjunct1] init c change by blast
  have pd: "joint_distance ?ph ?pl = Some 0.05"
    by (simp add: proximity_init_def distance_frame_def joint_distance_def
          get_joint_position_def vec_norm_on_x_axis del: vec_norm.simps)
  have pq: "jp_closed (proximity_run [] ?ph) = []" "(0.05::real) < 0.1"
    "previous_close ?ph [] \<noteq> Some True"
    by (simp_all add: proximity_init_def)
  have close: "length (jp_closed (proximity_on_joints_detected ?pl (proximity_run [] ?ph))) = 1"
    using t [THEN conjunct2, THEN conjunct2, THEN conjunct2, THEN conjunct2, THEN conjunct2,
             THEN conjunct1] pd pq by blast
  have ar: "threshold_reached (angle_run [] ?ah) right_angle_frame = Some True"
    by (simp add: angle_init_def threshold_reached_def get_joint_position_def
          right_angle_frame_def right_angle)
  have aq: "ja_fired (angle_run [] ?ah) = []" "\<not> ja_threshold_crossed (angle_run [] ?ah)"
    by (simp_all add: angle_init_def)
  have fired: "length (ja_fired (angle_on_joints_detected right_angle_frame
      (angle_run [] ?ah))) = 1"
    using t [THEN conjunct2, THEN conjunct2, THEN conjunct2, THEN conjunct2, THEN conjunct2,
             THEN conjunct2, THEN conjunct2, THEN conjunct2] ar aq by blast
  from s f counted init c(1) crossed pd close ar fired show ?thesis
    by blast
qed

end
